theory Spec2Isabelle
  imports Complex_Main
begin

section \<open>Text primitives\<close>

text \<open>
  Report texts are modelled as ASCII strings. The definitions below are the Python string
  operations the server uses: \<^verbatim>\<open>str.lower\<close>, \<^verbatim>\<open>sub in s\<close>,
  \<^verbatim>\<open>str.split()\<close>, \<^verbatim>\<open>str.count\<close> and the character classes of the
  \<^verbatim>\<open>re\<close> module (\<^verbatim>\<open>\s\<close>, \<^verbatim>\<open>\w\<close>, \<^verbatim>\<open>\b\<close>).
  Python floats are modelled as exact reals.
\<close>

definition upper_letters :: string where
  "upper_letters = ''ABCDEFGHIJKLMNOPQRSTUVWXYZ''"

definition lower_letters :: string where
  "lower_letters = ''abcdefghijklmnopqrstuvwxyz''"

definition digits :: string where
  "digits = ''0123456789''"

definition lower_char :: "char \<Rightarrow> char" where
  "lower_char c = (case map_of (zip upper_letters lower_letters) c of Some d \<Rightarrow> d | None \<Rightarrow> c)"

definition upper_char :: "char \<Rightarrow> char" where
  "upper_char c = (case map_of (zip lower_letters upper_letters) c of Some d \<Rightarrow> d | None \<Rightarrow> c)"

definition lower :: "string \<Rightarrow> string" where
  "lower s = map lower_char s"

definition upper :: "string \<Rightarrow> string" where
  "upper s = map upper_char s"

definition is_alpha :: "char \<Rightarrow> bool" where
  "is_alpha c = (c \<in> set lower_letters \<or> c \<in> set upper_letters)"

text \<open>\<^verbatim>\<open>\w\<close>: letters, digits and the underscore.\<close>

definition word_char :: "char \<Rightarrow> bool" where
  "word_char c = (is_alpha c \<or> c \<in> set digits \<or> c = CHR ''_'')"

text \<open>Whitespace as \<^verbatim>\<open>str.split()\<close> and \<^verbatim>\<open>\s\<close> see it: codes 9 to 13, 28 to 32.\<close>

definition is_space :: "char \<Rightarrow> bool" where
  "is_space c = (let n = (of_char c :: nat) in (9 \<le> n \<and> n \<le> 13) \<or> (28 \<le> n \<and> n \<le> 32))"

fun starts_with :: "string \<Rightarrow> string \<Rightarrow> bool" where
  "starts_with [] s = True"
| "starts_with (c # cs) [] = False"
| "starts_with (c # cs) (d # ds) = (c = d \<and> starts_with cs ds)"

text \<open>\<^verbatim>\<open>sub in s\<close>\<close>

fun contains :: "string \<Rightarrow> string \<Rightarrow> bool" where
  "contains sub [] = (sub = [])"
| "contains sub (c # cs) = (starts_with sub (c # cs) \<or> contains sub cs)"

text \<open>\<^verbatim>\<open>any(k in s for k in kws)\<close>\<close>

definition any_in :: "string list \<Rightarrow> string \<Rightarrow> bool" where
  "any_in kws s = list_ex (\<lambda>k. contains k s) kws"

text \<open>\<^verbatim>\<open>s.split()\<close>: the maximal runs of non-whitespace characters.\<close>

fun split_acc :: "string \<Rightarrow> string \<Rightarrow> string list" where
  "split_acc cur [] = (if cur = [] then [] else [cur])"
| "split_acc cur (c # cs) =
     (if is_space c then (if cur = [] then split_acc [] cs else cur # split_acc [] cs)
      else split_acc (cur @ [c]) cs)"

definition split :: "string \<Rightarrow> string list" where
  "split s = split_acc [] s"

section \<open>Escalation model service\<close>

datatype risk = Low | Medium | High

record probabilities =
  p_low :: real
  p_medium :: real
  p_high :: real

fun prob_of :: "probabilities \<Rightarrow> risk \<Rightarrow> real" where
  "prob_of p Low = p_low p"
| "prob_of p Medium = p_medium p"
| "prob_of p High = p_high p"

text \<open>The dictionary returned by \<^verbatim>\<open>predict_escalation_risk\<close>; \<open>error\<close> is \<open>None\<close> when
  the key is absent.\<close>

record escalation_verdict =
  predicted_risk :: risk
  confidence :: real
  probs :: probabilities
  error :: "string option"

definition violence_keywords :: "string list" where
  "violence_keywords = [''shot'', ''fire'', ''fired'', ''gun'', ''weapon'', ''knife'', ''stab'',
     ''attack'', ''assault'', ''threat'', ''violence'', ''hurt'', ''blood'', ''injured'', ''dead'',
     ''kill'', ''murder'', ''robbery'', ''armed'', ''hostage'', ''kidnap'']"

definition child_safety_keywords :: "string list" where
  "child_safety_keywords = [''child'', ''children'', ''kid'', ''kids'', ''girl'', ''boy'', ''baby'',
     ''infant'', ''toddler'', ''minor'', ''juvenile'', ''abduct'', ''trafficking'',
     ''kidnap'', ''molest'', ''abuse'']"

definition generic_keywords :: "string list" where
  "generic_keywords = [''noise'', ''loud'', ''sound'', ''hearing'', ''heard'']"

definition life_threatening_keywords :: "string list" where
  "life_threatening_keywords = [''hostage'', ''gun'', ''armed'', ''weapon'', ''shooting'', ''shooter'',
     ''bomb'', ''explosive'', ''terror'', ''active shooter'', ''gunman'',
     ''armed robbery'', ''held at gunpoint'', ''threatening with'']"

definition has_violence_keywords :: "string \<Rightarrow> bool" where
  "has_violence_keywords description = any_in violence_keywords (lower description)"

definition has_child_safety_concerns :: "string \<Rightarrow> bool" where
  "has_child_safety_concerns description = any_in child_safety_keywords (lower description)"

definition has_generic_keywords :: "string \<Rightarrow> bool" where
  "has_generic_keywords description = any_in generic_keywords (lower description)"

definition has_life_threatening :: "string \<Rightarrow> bool" where
  "has_life_threatening description = any_in life_threatening_keywords (lower description)"

definition is_generic_description :: "string \<Rightarrow> bool" where
  "is_generic_description description = (length (split description) < 8)"

text \<open>\<^verbatim>\<open>unknown_ratio = len(unknown_categories) / 8.0\<close>\<close>

definition unknown_ratio :: "nat \<Rightarrow> real" where
  "unknown_ratio n = real n / 8"

text \<open>\<^verbatim>\<open>adjusted_confidence = max(0.3, raw_confidence - len(unknown_categories) * 0.15)\<close>\<close>

definition adjusted_confidence :: "nat \<Rightarrow> real \<Rightarrow> real" where
  "adjusted_confidence n raw = max (3/10) (raw - real n * (15/100))"

text \<open>The two upgrades, in the order of the source: child safety first, life-threatening
  second, each guarded by \<^verbatim>\<open>predicted_risk != 'High'\<close>.\<close>

definition upgrade_child :: "string \<Rightarrow> risk \<times> real \<times> probabilities \<Rightarrow> risk \<times> real \<times> probabilities" where
  "upgrade_child description st =
     (if has_child_safety_concerns description \<and> fst st \<noteq> High
      then (High, 85/100, \<lparr>p_low = 5/100, p_medium = 10/100, p_high = 85/100\<rparr>)
      else st)"

definition upgrade_life :: "string \<Rightarrow> risk \<times> real \<times> probabilities \<Rightarrow> risk \<times> real \<times> probabilities" where
  "upgrade_life description st =
     (if has_life_threatening description \<and> fst st \<noteq> High
      then (High, 95/100, \<lparr>p_low = 2/100, p_medium = 3/100, p_high = 95/100\<rparr>)
      else st)"

text \<open>\<^verbatim>\<open>should_override\<close>: never with life-threatening or child-safety vocabulary; otherwise
  Case 1 (many unknown categories, generic description, no violence) or Case 2 (generic
  keywords, no violence), each only when the current risk is High.\<close>

definition should_override :: "string \<Rightarrow> nat \<Rightarrow> risk \<Rightarrow> bool" where
  "should_override description n r =
     (if has_life_threatening description \<or> has_child_safety_concerns description then False
      else
        ((3/10 < unknown_ratio n \<and> is_generic_description description
            \<and> \<not> has_violence_keywords description) \<and> r = High)
        \<or> ((has_generic_keywords description \<and> \<not> has_violence_keywords description) \<and> r = High))"

definition apply_override :: "string \<Rightarrow> risk \<times> real \<times> probabilities \<Rightarrow> risk \<times> real \<times> probabilities" where
  "apply_override description st =
     (if has_generic_keywords description
      then (Low, 60/100, \<lparr>p_low = 60/100, p_medium = 35/100, p_high = 5/100\<rparr>)
      else (Medium, 55/100, \<lparr>p_low = 20/100, p_medium = 55/100, p_high = 25/100\<rparr>))"

text \<open>Lines 320 to 440 of \<^verbatim>\<open>predict_escalation_risk\<close>: from the model's argmax \<open>pred\<close>, its
  softmax \<open>raw\<close> and the number \<open>n\<close> of unknown categories to the result.\<close>

definition escalation_overrides :: "string \<Rightarrow> nat \<Rightarrow> risk \<Rightarrow> probabilities \<Rightarrow> escalation_verdict" where
  "escalation_overrides description n pred raw =
     (let st0 = (pred, adjusted_confidence n (prob_of raw pred), raw);
          st1 = upgrade_child description st0;
          st2 = upgrade_life description st1;
          st3 = (if should_override description n (fst st2) then apply_override description st2 else st2)
      in \<lparr>predicted_risk = fst st3, confidence = fst (snd st3), probs = snd (snd st3), error = None\<rparr>)"


subsection \<open>The whole of \<^verbatim>\<open>predict_escalation_risk\<close>\<close>

text \<open>\<^verbatim>\<open>incident_data\<close>: a field is \<open>None\<close> when its key is absent. \<open>i_datetime\<close> is the
  hour, day of week and month that \<^verbatim>\<open>pd.to_datetime\<close> parsed from
  \<^verbatim>\<open>datetime_occurred\<close>, or \<open>None\<close> when the key is absent or both parses failed: then
  \<^verbatim>\<open>dt = datetime.now()\<close>, a value without the attribute \<^verbatim>\<open>dayofweek\<close>.\<close>

record incident_data =
  i_description :: "string option"
  i_location :: "string option"
  i_sub_location :: "string option"
  i_crime_type :: "string option"
  i_is_user_report :: "bool option"
  i_part_of_day :: "string option"
  i_datetime :: "(nat \<times> nat \<times> nat) option"

text \<open>What \<^verbatim>\<open>load_escalation_model\<close> returns when it succeeds: the label encoders
  (column to \<^verbatim>\<open>classes_\<close>) and the tokenizer with the network, an oracle from the
  description, the encoded categories and \<^verbatim>\<open>is_user_report\<close> to an exception message or
  the argmax and the softmax vector.\<close>

record escalation_model =
  label_encoders :: "string \<rightharpoonup> string list"
  network :: "string \<Rightarrow> nat list \<Rightarrow> bool \<Rightarrow> string + (risk \<times> probabilities)"

definition index_of :: "'a \<Rightarrow> 'a list \<Rightarrow> nat" where
  "index_of v xs = length (takeWhile (\<lambda>x. x \<noteq> v) xs)"

text \<open>The calls of \<^verbatim>\<open>safe_encode\<close> in order; the second component is
  \<^verbatim>\<open>unknown_categories\<close>.\<close>

fun safe_encode_all :: "(string \<rightharpoonup> string list) \<Rightarrow> (string \<times> string) list \<Rightarrow> string + (nat list \<times> string list)" where
  "safe_encode_all le [] = Inr ([], [])"
| "safe_encode_all le ((col, v) # rest) =
     (case le col of
        None \<Rightarrow> Inl ''KeyError''
      | Some classes \<Rightarrow>
          (case safe_encode_all le rest of
             Inl e \<Rightarrow> Inl e
           | Inr (encs, unknown) \<Rightarrow>
               if v \<in> set classes then Inr (index_of v classes # encs, unknown)
               else Inr (length classes div 2 # encs, col # unknown)))"

text \<open>\<^verbatim>\<open>str(n)\<close> for a natural number.\<close>

fun str_nat :: "nat \<Rightarrow> string" where
  "str_nat n = (if n < 10 then [digits ! n] else str_nat (n div 10) @ [digits ! (n mod 10)])"

declare str_nat.simps [simp del]

definition part_of_day_of_hour :: "nat \<Rightarrow> string" where
  "part_of_day_of_hour hour =
     (if 5 \<le> hour \<and> hour < 12 then ''Morning''
      else if 12 \<le> hour \<and> hour < 17 then ''Afternoon''
      else if 17 \<le> hour \<and> hour < 21 then ''Evening''
      else ''Night'')"

definition get_default :: "'a option \<Rightarrow> 'a \<Rightarrow> 'a" where
  "get_default v d = (case v of None \<Rightarrow> d | Some x \<Rightarrow> x)"

text \<open>The body of the \<^verbatim>\<open>try\<close> block: \<open>Inl\<close> is a raised exception.\<close>

definition predict_body :: "escalation_model \<Rightarrow> incident_data \<Rightarrow> string + escalation_verdict" where
  "predict_body m inc =
     (let description = get_default (i_description inc) ''Unknown incident'';
          location = get_default (i_location inc) ''Unknown'';
          sub_location = get_default (i_sub_location inc) ''Unknown'';
          crime_type = get_default (i_crime_type inc) ''Unknown'';
          is_user_report = get_default (i_is_user_report inc) True
      in case i_datetime inc of
           None \<Rightarrow> Inl ''AttributeError''
         | Some (hour, day_of_week, month) \<Rightarrow>
            (let part_of_day =
                   (case i_part_of_day inc of
                      None \<Rightarrow> part_of_day_of_hour hour
                    | Some p \<Rightarrow> if p = [] then part_of_day_of_hour hour else p)
             in case safe_encode_all (label_encoders m)
                       [(''location'', location), (''sub_location'', sub_location),
                        (''crime_type'', crime_type), (''hour'', str_nat hour),
                        (''part_of_day'', part_of_day), (''day_of_week'', str_nat day_of_week),
                        (''month'', str_nat month)] of
                  Inl e \<Rightarrow> Inl e
                | Inr (encs, unknown_categories) \<Rightarrow>
                    (case network m description encs is_user_report of
                       Inl e \<Rightarrow> Inl e
                     | Inr (pred, raw) \<Rightarrow>
                         Inr (escalation_overrides description (length unknown_categories) pred raw))))"

definition fallback_verdict :: "string \<Rightarrow> escalation_verdict" where
  "fallback_verdict e =
     \<lparr>predicted_risk = Medium, confidence = 0,
      probs = \<lparr>p_low = 33/100, p_medium = 34/100, p_high = 33/100\<rparr>, error = Some e\<rparr>"

text \<open>The first argument is what \<^verbatim>\<open>load_escalation_model\<close> returned: \<open>None\<close> for
  \<^verbatim>\<open>(None, None, None)\<close>.\<close>

definition predict_escalation_risk :: "escalation_model option \<Rightarrow> incident_data \<Rightarrow> escalation_verdict" where
  "predict_escalation_risk loaded inc =
     (case loaded of
        None \<Rightarrow> fallback_verdict ''Model not loaded''
      | Some m \<Rightarrow> (case predict_body m inc of Inl e \<Rightarrow> fallback_verdict e | Inr v \<Rightarrow> v))"

section \<open>Credibility ledger\<close>

text \<open>\<^verbatim>\<open>max(0, min(100, score - credibility_penalty))\<close>, as both endpoints compute and
  report it.\<close>

definition new_credibility_score :: "int \<Rightarrow> int \<Rightarrow> int" where
  "new_credibility_score score credibility_penalty = max 0 (min 100 (score - credibility_penalty))"

text \<open>The ledger block of \<^verbatim>\<open>auto_verify_report\<close> (lines 2170 to 2186) for a reporter with
  an identifier: the score it computes and the value it writes to the store, \<open>None\<close> when it
  writes nothing.\<close>

definition update_user_credibility :: "int \<Rightarrow> int \<Rightarrow> int \<times> int option" where
  "update_user_credibility user_credibility_score credibility_penalty =
     (if credibility_penalty \<noteq> 0 then
        (let new_score = new_credibility_score user_credibility_score credibility_penalty
         in if user_credibility_score \<ge> 100 \<and> credibility_penalty < 0 then (100, None)
            else (new_score, Some new_score))
      else (new_credibility_score user_credibility_score credibility_penalty, None))"






section \<open>Regular expressions of the \<^verbatim>\<open>re\<close> module\<close>

text \<open>
  A position in a text is the character before it (\<open>None\<close> at the start) and the rest of
  the text. \<^verbatim>\<open>\b\<close> holds where exactly one of the two neighbours is a word character.
\<close>

fun word_before :: "char option \<Rightarrow> bool" where
  "word_before None = False"
| "word_before (Some c) = word_char c"

fun word_after :: "string \<Rightarrow> bool" where
  "word_after [] = False"
| "word_after (c # cs) = word_char c"

definition boundary :: "char option \<Rightarrow> string \<Rightarrow> bool" where
  "boundary p s = (word_before p \<noteq> word_after s)"

text \<open>The fragment of the pattern language the server uses. A match is searched with a
  continuation: \<open>rmatch r k p s\<close> holds when \<open>r\<close> matches a prefix of \<open>s\<close> and \<open>k\<close>
  accepts the position after it; this is what a backtracking search finds.\<close>

datatype cls = Space | Word

fun cls_pred :: "cls \<Rightarrow> char \<Rightarrow> bool" where
  "cls_pred Space c = is_space c"
| "cls_pred Word c = word_char c"

datatype rx = Str string | Plus cls | Cat rx rx | Or rx rx | Opt rx | Bnd

fun str_match :: "string \<Rightarrow> (char option \<Rightarrow> string \<Rightarrow> bool) \<Rightarrow> char option \<Rightarrow> string \<Rightarrow> bool" where
  "str_match [] k p s = k p s"
| "str_match (c # cs) k p [] = False"
| "str_match (c # cs) k p (d # ds) = (c = d \<and> str_match cs k (Some d) ds)"

fun plus_match :: "(char \<Rightarrow> bool) \<Rightarrow> (char option \<Rightarrow> string \<Rightarrow> bool) \<Rightarrow> char option \<Rightarrow> string \<Rightarrow> bool" where
  "plus_match P k p [] = False"
| "plus_match P k p (c # cs) = (P c \<and> (plus_match P k (Some c) cs \<or> k (Some c) cs))"

primrec rmatch :: "rx \<Rightarrow> (char option \<Rightarrow> string \<Rightarrow> bool) \<Rightarrow> char option \<Rightarrow> string \<Rightarrow> bool" where
  "rmatch (Str w) = (\<lambda>k. str_match w k)"
| "rmatch (Plus c) = (\<lambda>k. plus_match (cls_pred c) k)"
| "rmatch (Cat a b) = (\<lambda>k. rmatch a (rmatch b k))"
| "rmatch (Or a b) = (\<lambda>k p s. rmatch a k p s \<or> rmatch b k p s)"
| "rmatch (Opt a) = (\<lambda>k p s. rmatch a k p s \<or> k p s)"
| "rmatch Bnd = (\<lambda>k p s. boundary p s \<and> k p s)"

text \<open>\<^verbatim>\<open>re.search(r, s) is not None\<close>\<close>

fun rsearch_from :: "rx \<Rightarrow> char option \<Rightarrow> string \<Rightarrow> bool" where
  "rsearch_from r p [] = rmatch r (\<lambda>p' s'. True) p []"
| "rsearch_from r p (c # cs) = (rmatch r (\<lambda>p' s'. True) p (c # cs) \<or> rsearch_from r (Some c) cs)"

definition re_search :: "rx \<Rightarrow> string \<Rightarrow> bool" where
  "re_search r s = rsearch_from r None s"

fun any_of :: "string list \<Rightarrow> rx" where
  "any_of [] = Str []"
| "any_of [w] = Str w"
| "any_of (w # ws) = Or (Str w) (any_of ws)"

text \<open>A word between two \<^verbatim>\<open>\b\<close>, anchored at a position and anywhere in a text.\<close>

definition at_wb :: "string \<Rightarrow> char option \<Rightarrow> string \<Rightarrow> bool" where
  "at_wb w p s = (boundary p s \<and> str_match w boundary p s)"

fun occurs_wb :: "string \<Rightarrow> char option \<Rightarrow> string \<Rightarrow> bool" where
  "occurs_wb w p [] = at_wb w p []"
| "occurs_wb w p (c # cs) = (at_wb w p (c # cs) \<or> occurs_wb w (Some c) cs)"

section \<open>Heuristic suspicion scorer\<close>

text \<open>The reasons \<^verbatim>\<open>_quick_fake_check\<close> appends, one constructor for each message (the
  clusters and words that two of the messages quote are left out).\<close>

datatype reason =
    LowVowelRatio | ConsonantClusters | UnrecognizableWords
  | ExtremelyBrief | VeryShort | JokeIndicators | Implausible string
  | Contradictory | ExcessivePunctuation | ExcessiveCapitalization
  | VagueTerms | DisclaimerLanguage | LowCredibility
  | NoCrimeKeywords | NonCrimeKeywords

record quick_flags =
  is_suspicious :: bool
  q_confidence :: real
  penalty :: int
  reasons :: "reason list"

definition count_char :: "char \<Rightarrow> string \<Rightarrow> nat" where
  "count_char c s = length (filter (\<lambda>d. d = c) s)"

text \<open>\<^verbatim>\<open>s.count(sub)\<close>: occurrences that do not overlap, from the left.\<close>

fun count_sub :: "string \<Rightarrow> string \<Rightarrow> nat" where
  "count_sub sub [] = (if sub = [] then 1 else 0)"
| "count_sub sub (c # cs) =
     (if sub = [] then 1 + count_sub sub cs
      else if starts_with sub (c # cs) then 1 + count_sub sub (drop (length sub - 1) cs)
      else count_sub sub cs)"

definition vowels :: string where
  "vowels = ''aeiou''"

text \<open>\<^verbatim>\<open>[^aeiou\s]{4,}\<close> has a match: a run of \<open>n\<close> characters that satisfy \<open>P\<close>; \<open>k\<close> is
  the length of the run that ends here.\<close>

fun has_run :: "(char \<Rightarrow> bool) \<Rightarrow> nat \<Rightarrow> nat \<Rightarrow> string \<Rightarrow> bool" where
  "has_run P n k [] = (n \<le> k)"
| "has_run P n k (c # cs) = (n \<le> k \<or> (if P c then has_run P n (Suc k) cs else has_run P n 0 cs))"

definition consonant_clusters :: "string \<Rightarrow> bool" where
  "consonant_clusters text_lower = has_run (\<lambda>c. c \<notin> set vowels \<and> \<not> is_space c) 4 0 text_lower"

text \<open>\<^verbatim>\<open>(.)\1{2,}\<close>: the same character, not a newline, three times in a row.\<close>

fun has_repeats :: "string \<Rightarrow> bool" where
  "has_repeats (a # b # c # rest) = ((a = b \<and> b = c \<and> a \<noteq> CHR 0x0A) \<or> has_repeats (b # c # rest))"
| "has_repeats s = False"

definition common_patterns :: "string list" where
  "common_patterns = [''th'', ''er'', ''on'', ''an'', ''in'', ''ed'', ''ing'', ''ly'', ''ion'', ''al'', ''en'']"

definition suspicious_word :: "string \<Rightarrow> bool" where
  "suspicious_word word =
     (let word_lower = lower word
      in length word_lower > 4 \<and> (\<not> any_in common_patterns word_lower \<or> has_repeats word_lower))"

definition joke_keywords :: "string list" where
  "joke_keywords = [''lol'', ''haha'', ''jk'', ''just kidding'', ''obviously fake'', ''just testing'',
     ''fake report'']"

text \<open>The six \<^verbatim>\<open>implausible_patterns\<close> with their descriptions, in order.\<close>

definition implausible_patterns :: "(rx \<times> string) list" where
  "implausible_patterns =
    [(Cat Bnd (Cat (Str ''1000'') Bnd), ''1000+''),
     (Cat Bnd (Cat (Str ''999'') Bnd), ''999''),
     (Cat Bnd (Cat (Str ''100'') (Cat (Plus Space)
        (Cat (any_of [''robbers'', ''criminals'', ''people'']) Bnd))), ''100+ criminals''),
     (Cat Bnd (Cat (Str ''million'') Bnd), ''million losses''),
     (Cat Bnd (Cat (Str ''50'') (Cat (Opt (Str ''+'')) (Cat (Plus Space)
        (Cat (any_of [''shots'', ''bullets'', ''explosions'']) Bnd)))), ''50+ shots''),
     (Cat Bnd (Cat (Str ''every'') (Cat (Plus Space)
        (Cat (Opt (Cat (Plus Word) (Plus Space))) (Cat (Str ''second'') Bnd)))),
      ''constant occurrence'')]"

definition negations :: "string list" where
  "negations = [''not'', ''never'', ''didn't'', ''didn't'', ''no one'', ''nobody'']"

definition vague_terms :: "string list" where
  "vague_terms = [''something'', ''somebody'', ''anyone'', ''anything'', ''stuff'']"

definition disclaimer_phrases :: "string list" where
  "disclaimer_phrases = [''i'm just checking'', ''just testing'', ''this is fake'', ''not real'',
     ''probably not important'', ''not sure if'', ''might be fake'', ''probably fake'']"

definition crime_keywords :: "string list" where
  "crime_keywords =
    [''steal'', ''stole'', ''stolen'', ''steals'', ''stealing'', ''robbery'', ''rob'', ''robbed'', ''theft'', ''thief'',
     ''fight'', ''fighting'', ''fought'', ''brawl'', ''assault'', ''assaulted'', ''murder'', ''murdered'', ''rape'', ''raped'',
     ''weapon'', ''gun'', ''guns'', ''knife'', ''knives'', ''fire'', ''hit'', ''hitting'', ''shot'', ''shots'', ''injured'', ''harm'',
     ''attack'', ''attacked'', ''attacking'', ''stab'', ''stabbed'', ''beat'', ''beaten'', ''beating'', ''violence'', ''violent'',
     ''crime'', ''criminal'', ''accident'', ''incident'', ''emergency'', ''police'', ''ambulance'', ''hospital'', ''danger'', ''threat'',
     ''suspicious'', ''kidnap'', ''kidnapped'', ''kidnapping'', ''abduct'', ''abducted'', ''bomb'', ''explosion'', ''arson'', ''vandal'', ''vandalism'']"

definition non_crime_keywords :: "string list" where
  "non_crime_keywords =
    [''character'', ''game'', ''level'', ''score'', ''password'', ''account'', ''app'', ''bug'',
     ''update'', ''download'', ''install'', ''error'', ''crash'', ''freeze'', ''lag'',
     ''late'', ''missed'', ''forgot'', ''lost'', ''broke'', ''didn't work'', ''didn't get'',
     ''wasn't'', ''wasn't able'', ''didn't receive'', ''not received'', ''order'',
     ''delivery'', ''package'', ''complaint'', ''review'', ''rating'',
     ''ghost'', ''alien'', ''ufo'', ''demon'', ''zombie'', ''vampire'', ''werewolf'', ''spirit'',
     ''supernatural'', ''magic'', ''wizard'', ''unicorn'', ''dragon'', ''bigfoot'', ''yeti'']"

text \<open>\<^verbatim>\<open>if cond: reasons.append(r); penalty += w\<close>\<close>

definition flag :: "bool \<Rightarrow> reason \<Rightarrow> int \<Rightarrow> reason list \<times> int \<Rightarrow> reason list \<times> int" where
  "flag cond r w acc = (if cond then (fst acc @ [r], snd acc + w) else acc)"

text \<open>Check 1: enhanced gibberish detection, for texts of at most five words.\<close>

definition check_gibberish :: "string \<Rightarrow> string list \<Rightarrow> reason list \<times> int \<Rightarrow> reason list \<times> int" where
  "check_gibberish text_lower text_words acc =
     (if length text_words \<le> 5 then
        (let vowel_count = length (filter (\<lambda>c. c \<in> set vowels) text_lower);
             total_chars = length (filter is_alpha text_lower);
             acc = flag (total_chars > 0 \<and> real vowel_count / real total_chars < 2/10)
                     LowVowelRatio 20 acc;
             acc = flag (consonant_clusters text_lower) ConsonantClusters 20 acc;
             suspicious_words = filter suspicious_word text_words
         in flag (real (length suspicious_words) \<ge> real (length text_words) / 2)
              UnrecognizableWords 20 acc)
      else acc)"

text \<open>Check 2: extremely short reports.\<close>

definition check_brevity :: "string list \<Rightarrow> reason list \<times> int \<Rightarrow> reason list \<times> int" where
  "check_brevity text_words acc =
     (if length text_words < 5 then flag True ExtremelyBrief 5 acc
      else if length text_words < 10 then flag True VeryShort 2 acc
      else acc)"

text \<open>Check 2 (second of that number): obvious joke keywords.\<close>

definition check_jokes :: "string \<Rightarrow> reason list \<times> int \<Rightarrow> reason list \<times> int" where
  "check_jokes text_lower acc = flag (any_in joke_keywords text_lower) JokeIndicators 20 acc"

text \<open>Check 3: implausible numbers, the loop over \<^verbatim>\<open>implausible_patterns\<close>.\<close>

fun check_implausible :: "(rx \<times> string) list \<Rightarrow> string \<Rightarrow> reason list \<times> int \<Rightarrow> reason list \<times> int" where
  "check_implausible [] text_lower acc = acc"
| "check_implausible ((pattern, desc) # rest) text_lower acc =
     check_implausible rest text_lower (flag (re_search pattern text_lower) (Implausible desc) 8 acc)"

text \<open>Check 4: contradictory statements.\<close>

definition check_contradictory :: "string \<Rightarrow> reason list \<times> int \<Rightarrow> reason list \<times> int" where
  "check_contradictory text_lower acc =
     (if contains ''but'' text_lower
      then flag (any_in negations text_lower) Contradictory 3 acc else acc)"

text \<open>Check 5: excessive punctuation or capitals.\<close>

definition check_punctuation :: "string \<Rightarrow> string list \<Rightarrow> reason list \<times> int \<Rightarrow> reason list \<times> int" where
  "check_punctuation text_lower text_words acc =
     (let acc = flag (count_char CHR ''!'' text_lower > 3 \<or> count_char CHR ''?'' text_lower > 3)
                  ExcessivePunctuation 3 acc
      in flag (real (count_sub (upper text_lower) text_lower) > real (length text_words) * (3/10))
           ExcessiveCapitalization 3 acc)"

text \<open>Check 6: vague descriptions.\<close>

definition check_vague :: "string \<Rightarrow> reason list \<times> int \<Rightarrow> reason list \<times> int" where
  "check_vague text_lower acc =
     (let vague_count = length (filter (\<lambda>term. contains term text_lower) vague_terms)
      in flag (vague_count \<ge> 3) VagueTerms 4 acc)"

text \<open>Check 7: disclaimer phrases.\<close>

definition check_disclaimer :: "string \<Rightarrow> reason list \<times> int \<Rightarrow> reason list \<times> int" where
  "check_disclaimer text_lower acc =
     flag (any_in disclaimer_phrases text_lower) DisclaimerLanguage 15 acc"

text \<open>Check 8: the reporter's credibility.\<close>

definition check_credibility :: "int \<Rightarrow> reason list \<times> int \<Rightarrow> reason list \<times> int" where
  "check_credibility officer_credibility_score acc =
     flag (officer_credibility_score < 25) LowCredibility 5 acc"

text \<open>Check 9: missing crime elements.\<close>

definition check_crime_elements :: "string \<Rightarrow> string list \<Rightarrow> reason list \<times> int \<Rightarrow> reason list \<times> int" where
  "check_crime_elements text_lower text_words acc =
     (let has_crime_keyword = any_in crime_keywords text_lower;
          has_non_crime_keyword = any_in non_crime_keywords text_lower
      in if \<not> has_crime_keyword \<and> length text_words \<ge> 5
         then flag has_non_crime_keyword NonCrimeKeywords 12 (flag True NoCrimeKeywords 10 acc)
         else acc)"

text \<open>The checks of \<^verbatim>\<open>_quick_fake_check\<close> in the order of the source; the result is the
  list of reasons and the penalty before the cap.\<close>

definition run_checks :: "string \<Rightarrow> int \<Rightarrow> reason list \<times> int" where
  "run_checks report_text officer_credibility_score =
     (let text_lower = lower report_text;
          text_words = split report_text;
          acc = ([], 0);
          acc = check_gibberish text_lower text_words acc;
          acc = check_brevity text_words acc;
          acc = check_jokes text_lower acc;
          acc = check_implausible implausible_patterns text_lower acc;
          acc = check_contradictory text_lower acc;
          acc = check_punctuation text_lower text_words acc;
          acc = check_vague text_lower acc;
          acc = check_disclaimer text_lower acc;
          acc = check_credibility officer_credibility_score acc
      in check_crime_elements text_lower text_words acc)"

definition quick_fake_check :: "string \<Rightarrow> int \<Rightarrow> quick_flags" where
  "quick_fake_check report_text officer_credibility_score =
     (let (rs, p) = run_checks report_text officer_credibility_score
      in \<lparr>is_suspicious = (p \<ge> 8),
          q_confidence = min (2/10 + real_of_int p * (3/100)) (95/100),
          penalty = min p 25,
          reasons = rs\<rparr>)"


subsection \<open>The checks as a table\<close>

text \<open>Every reason in the order in which \<^verbatim>\<open>_quick_fake_check\<close> can append it, the
  penalty each one adds, and the condition under which it is appended.\<close>

definition all_reasons :: "reason list" where
  "all_reasons =
     [LowVowelRatio, ConsonantClusters, UnrecognizableWords, ExtremelyBrief, VeryShort,
      JokeIndicators, Implausible ''1000+'', Implausible ''999'', Implausible ''100+ criminals'',
      Implausible ''million losses'', Implausible ''50+ shots'', Implausible ''constant occurrence'',
      Contradictory, ExcessivePunctuation, ExcessiveCapitalization, VagueTerms,
      DisclaimerLanguage, LowCredibility, NoCrimeKeywords, NonCrimeKeywords]"

fun weight :: "reason \<Rightarrow> int" where
  "weight LowVowelRatio = 20"
| "weight ConsonantClusters = 20"
| "weight UnrecognizableWords = 20"
| "weight ExtremelyBrief = 5"
| "weight VeryShort = 2"
| "weight JokeIndicators = 20"
| "weight (Implausible d) = 8"
| "weight Contradictory = 3"
| "weight ExcessivePunctuation = 3"
| "weight ExcessiveCapitalization = 3"
| "weight VagueTerms = 4"
| "weight DisclaimerLanguage = 15"
| "weight LowCredibility = 5"
| "weight NoCrimeKeywords = 10"
| "weight NonCrimeKeywords = 12"

fun fired :: "string \<Rightarrow> int \<Rightarrow> reason \<Rightarrow> bool" where
  "fired t c LowVowelRatio =
     (length (split t) \<le> 5 \<and> length (filter is_alpha (lower t)) > 0
      \<and> real (length (filter (\<lambda>c. c \<in> set vowels) (lower t))) / real (length (filter is_alpha (lower t))) < 2/10)"
| "fired t c ConsonantClusters = (length (split t) \<le> 5 \<and> consonant_clusters (lower t))"
| "fired t c UnrecognizableWords =
     (length (split t) \<le> 5
      \<and> real (length (filter suspicious_word (split t))) \<ge> real (length (split t)) / 2)"
| "fired t c ExtremelyBrief = (length (split t) < 5)"
| "fired t c VeryShort = (5 \<le> length (split t) \<and> length (split t) < 10)"
| "fired t c JokeIndicators = any_in joke_keywords (lower t)"
| "fired t c (Implausible d) =
     list_ex (\<lambda>(pattern, desc). desc = d \<and> re_search pattern (lower t)) implausible_patterns"
| "fired t c Contradictory = (contains ''but'' (lower t) \<and> any_in negations (lower t))"
| "fired t c ExcessivePunctuation =
     (count_char CHR ''!'' (lower t) > 3 \<or> count_char CHR ''?'' (lower t) > 3)"
| "fired t c ExcessiveCapitalization =
     (real (count_sub (upper (lower t)) (lower t)) > real (length (split t)) * (3/10))"
| "fired t c VagueTerms = (length (filter (\<lambda>term. contains term (lower t)) vague_terms) \<ge> 3)"
| "fired t c DisclaimerLanguage = any_in disclaimer_phrases (lower t)"
| "fired t c LowCredibility = (c < 25)"
| "fired t c NoCrimeKeywords = (\<not> any_in crime_keywords (lower t) \<and> length (split t) \<ge> 5)"
| "fired t c NonCrimeKeywords =
     (\<not> any_in crime_keywords (lower t) \<and> length (split t) \<ge> 5 \<and> any_in non_crime_keywords (lower t))"

text \<open>Appending the reasons of a list that fire, and adding their penalties.\<close>

definition emit :: "string \<Rightarrow> int \<Rightarrow> reason list \<Rightarrow> reason list \<times> int \<Rightarrow> reason list \<times> int" where
  "emit t c rs acc =
     (fst acc @ filter (fired t c) rs, snd acc + sum_list (map weight (filter (fired t c) rs)))"


section \<open>Fake-report detection\<close>

text \<open>
  The two endpoints are modelled for one request, with the document store reachable and a
  non-empty user identifier. The statistical classifier and the language-model service are
  oracles. The reasoning strings are left out of the results.
\<close>

subsection \<open>The statistical classifier and its lazy loading\<close>

text \<open>A loaded classifier: from the text to an exception message or to
  \<^verbatim>\<open>(is_fake, confidence)\<close>, as \<^verbatim>\<open>predict_fake_with_ml_model\<close> returns them.\<close>

type_synonym ml_model = "string \<Rightarrow> string + (bool \<times> real)"

text \<open>The globals \<^verbatim>\<open>ML_FAKE_MODEL\<close> and \<^verbatim>\<open>ML_LOADING_ATTEMPTED\<close>.\<close>

record ml_globals =
  ml_fake_model :: "ml_model option"
  ml_loading_attempted :: bool

text \<open>What a load attempt does: it succeeds, or it raises, before or after
  \<^verbatim>\<open>ML_FAKE_MODEL\<close> was assigned.\<close>

datatype load_outcome = LoadOk ml_model | LoadFailed "ml_model option"

definition is_loaded :: "ml_globals \<Rightarrow> bool" where
  "is_loaded g = (case ml_fake_model g of None \<Rightarrow> False | Some m \<Rightarrow> True)"

definition lazy_load_ml_model :: "load_outcome \<Rightarrow> ml_globals \<Rightarrow> bool \<times> ml_globals" where
  "lazy_load_ml_model disk g =
     (if ml_loading_attempted g then (is_loaded g, g)
      else (case disk of
              LoadOk m \<Rightarrow> (True, \<lparr>ml_fake_model = Some m, ml_loading_attempted = True\<rparr>)
            | LoadFailed None \<Rightarrow> (False, g\<lparr>ml_loading_attempted := True\<rparr>)
            | LoadFailed (Some m) \<Rightarrow> (False, \<lparr>ml_fake_model = Some m, ml_loading_attempted = True\<rparr>)))"

definition predict_fake_with_ml_model :: "ml_globals \<Rightarrow> string \<Rightarrow> string + (bool \<times> real)" where
  "predict_fake_with_ml_model g text =
     (case ml_fake_model g of None \<Rightarrow> Inl ''ML model not loaded'' | Some m \<Rightarrow> m text)"

subsection \<open>The language-model service\<close>

text \<open>The JSON object of a reply; a field is \<open>None\<close> when its key is absent.\<close>

record llm_reply =
  l_is_fake :: "bool option"
  l_confidence :: "real option"
  l_credibility_penalty :: "int option"
  l_can_upload :: "bool option"

text \<open>\<^verbatim>\<open>call_gemini_with_retry\<close> followed by the extraction of the JSON object: the call
  raised, the reply holds no object, the object does not parse, or it parses.\<close>

datatype gemini_outcome = GeminiRaised | NoJsonObject | JsonDecodeError | Parsed llm_reply

record services =
  load_ml :: load_outcome
  gemini_api_key :: bool
  gemini :: "string \<Rightarrow> int \<Rightarrow> gemini_outcome"

datatype 'a response = BadRequest | Forbidden | ServerError | Ok 'a

subsection \<open>\<^verbatim>\<open>auto_verify_report\<close>\<close>

datatype verification_method =
  MlModel | GeminiApi | Heuristics | SafetyHeuristics | PreScreeningHeuristics

record verify_request =
  report_id :: string
  report_text :: string
  stored_score :: "int option"

record verify_result =
  r_is_fake :: bool
  r_confidence :: real
  r_credibility_penalty :: int
  verified_by :: verification_method
  r_new_credibility_score :: int
  r_written_score :: "int option"

definition verify_weapon_keywords :: "string list" where
  "verify_weapon_keywords = [''gun'', ''guns'', ''pistol'', ''rifle'', ''firearm'', ''armed'', ''knife'',
     ''knives'', ''blade'', ''bomb'', ''weapon'']"

definition verify_kidnap_keywords :: "string list" where
  "verify_kidnap_keywords = [''kidnap'', ''kidnapped'', ''kidnapping'', ''abduct'', ''abducted'']"

definition safety_keywords_present :: "string \<Rightarrow> bool" where
  "safety_keywords_present text =
     (any_in verify_weapon_keywords (lower text) \<or> any_in verify_kidnap_keywords (lower text))"

text \<open>Lines 1911 to 1968: from the classifier's label and confidence to
  \<^verbatim>\<open>(is_fake, confidence, credibility_penalty, verification_method)\<close>. In the second
  branch \<^verbatim>\<open>is_fake\<close> is reset before it is tested, as in the source.\<close>

definition ml_tier :: "bool \<Rightarrow> real \<Rightarrow> bool \<times> real \<times> int \<times> verification_method" where
  "ml_tier ml_is_fake conf =
     (let (is_fake, credibility_penalty) =
            (if ml_is_fake \<and> conf \<ge> 60/100 then
               (True, if conf \<ge> 95/100 then 22
                      else if conf \<ge> 85/100 then 18
                      else if conf \<ge> 70/100 then 12
                      else 8)
             else
               (let is_fake = False
                in (is_fake, if is_fake \<and> conf < 60/100 then 0
                             else if \<not> is_fake \<and> conf \<ge> 95/100 then -5
                             else if \<not> is_fake \<and> conf \<ge> 85/100 then -3
                             else if \<not> is_fake \<and> conf \<ge> 70/100 then -1
                             else 0)))
      in (is_fake, conf, credibility_penalty,
          if is_fake \<and> conf < 70/100 then Heuristics else MlModel))"

text \<open>The pre-screening of short reports (lines 1826 to 1892): \<open>Some\<close> is the early
  response.\<close>

definition pre_screening :: "string \<Rightarrow> int \<Rightarrow> verify_result option" where
  "pre_screening text user_credibility_score =
     (if safety_keywords_present text then None
      else if length (split text) < 10 then
        (let quick_check = quick_fake_check text user_credibility_score
         in if is_suspicious quick_check then
              (let new_cred = max 0 (user_credibility_score - penalty quick_check)
               in Some \<lparr>r_is_fake = True, r_confidence = 85/100,
                        r_credibility_penalty = penalty quick_check,
                        verified_by = PreScreeningHeuristics,
                        r_new_credibility_score = new_cred,
                        r_written_score = Some new_cred\<rparr>)
            else None)
      else None)"

text \<open>Tier 1 (lines 1894 to 1978): the verdict so far and the globals after it.\<close>

definition verify_tier1 :: "services \<Rightarrow> ml_globals \<Rightarrow> string \<Rightarrow> (bool \<times> real \<times> int \<times> verification_method) \<times> ml_globals" where
  "verify_tier1 sv g text =
     (if \<not> safety_keywords_present text then
        (let (ml_available, g') = lazy_load_ml_model (load_ml sv) g
         in if ml_available \<and> is_loaded g' then
              (case predict_fake_with_ml_model g' text of
                 Inr (ml_is_fake, conf) \<Rightarrow> (ml_tier ml_is_fake conf, g')
               | Inl e \<Rightarrow> ((False, 5/10, 0, Heuristics), g'))
            else ((False, 5/10, 0, Heuristics), g'))
      else ((False, 1, 0, SafetyHeuristics), g))"

text \<open>Tier 2 and tier 3 (lines 1980 to 2063); \<open>None\<close> is an exception that reaches the
  handler of the endpoint.\<close>

definition verify_tier2 :: "services \<Rightarrow> ml_globals \<Rightarrow> string \<Rightarrow> int \<Rightarrow> bool \<times> real \<times> int \<times> verification_method
    \<Rightarrow> (bool \<times> real \<times> int \<times> verification_method) option" where
  "verify_tier2 sv g text user_credibility_score st =
     (if \<not> is_loaded g \<or> snd (snd (snd st)) = Heuristics then
        (if gemini_api_key sv then
           (case gemini sv text user_credibility_score of
              Parsed result \<Rightarrow>
                Some (get_default (l_is_fake result) False,
                      get_default (l_confidence result) (7/10),
                      get_default (l_credibility_penalty result) 0,
                      GeminiApi)
            | GeminiRaised \<Rightarrow> None
            | NoJsonObject \<Rightarrow> None
            | JsonDecodeError \<Rightarrow> None)
         else
           (let quick_flags = quick_fake_check text user_credibility_score
            in Some (is_suspicious quick_flags, q_confidence quick_flags, penalty quick_flags,
                     Heuristics)))
      else Some st)"

definition auto_verify_report :: "services \<Rightarrow> ml_globals \<Rightarrow> verify_request \<Rightarrow> verify_result response" where
  "auto_verify_report sv g req =
     (if report_id req = [] \<or> report_text req = [] then BadRequest
      else
        (let user_credibility_score = get_default (stored_score req) 50
         in if user_credibility_score \<le> 0 then Forbidden
            else
              (case pre_screening (report_text req) user_credibility_score of
                 Some early \<Rightarrow> Ok early
               | None \<Rightarrow>
                   (let (st, g') = verify_tier1 sv g (report_text req)
                    in case verify_tier2 sv g' (report_text req) user_credibility_score st of
                         None \<Rightarrow> ServerError
                       | Some (is_fake, conf, credibility_penalty, verification_method) \<Rightarrow>
                           Ok \<lparr>r_is_fake = is_fake, r_confidence = conf,
                               r_credibility_penalty = credibility_penalty,
                               verified_by = verification_method,
                               r_new_credibility_score =
                                 new_credibility_score user_credibility_score credibility_penalty,
                               r_written_score =
                                 snd (update_user_credibility user_credibility_score credibility_penalty)\<rparr>))))"

subsection \<open>\<^verbatim>\<open>detect_fake_report\<close>\<close>

record detect_request =
  d_report_text :: string
  d_officer_credibility_score :: "int option"

text \<open>The response; \<open>d_confidence\<close> is the confidence before \<^verbatim>\<open>round(confidence, 3)\<close>.\<close>

record detect_result =
  d_is_fake :: bool
  d_confidence :: real
  d_credibility_penalty :: int
  can_upload :: bool
  d_new_credibility_score :: int

text \<open>Tier 1 (lines 1503 to 1527): \<open>None\<close> is the re-raised exception. The state is
  \<^verbatim>\<open>(is_fake, confidence, credibility_penalty, can_upload)\<close>, initialised at the top of
  the endpoint.\<close>

definition detect_tier1 :: "services \<Rightarrow> ml_globals \<Rightarrow> string \<Rightarrow> int \<Rightarrow> quick_flags
    \<Rightarrow> ((bool \<times> real \<times> int \<times> bool) \<times> ml_globals) option" where
  "detect_tier1 sv g text officer_credibility_score quick_flags =
     (let (ml_available, g') = lazy_load_ml_model (load_ml sv) g
      in if ml_available \<and> is_loaded g' then
           (case predict_fake_with_ml_model g' text of
              Inr (is_fake, ml_confidence) \<Rightarrow>
                (let conf =
                       (if is_suspicious quick_flags \<and> q_confidence quick_flags > ml_confidence
                        then q_confidence quick_flags else ml_confidence);
                     credibility_penalty =
                       (if is_suspicious quick_flags then penalty quick_flags
                        else (if is_fake then 20 else 0));
                     cu = (\<not> is_fake \<and> officer_credibility_score \<ge> 20)
                 in Some ((is_fake, conf, credibility_penalty, cu), g'))
            | Inl e \<Rightarrow>
                (if gemini_api_key sv then Some ((False, 0, 0, False), g') else None))
         else Some ((False, 0, 0, False), g'))"

text \<open>Tier 2 and tier 3 (lines 1529 to 1651). The second disjunct of the source's test,
  \<^verbatim>\<open>'is_fake' not in locals()\<close>, is false: \<^verbatim>\<open>is_fake\<close> is assigned at the top of the
  endpoint.\<close>

definition detect_tier2 :: "services \<Rightarrow> ml_globals \<Rightarrow> string \<Rightarrow> int \<Rightarrow> quick_flags
    \<Rightarrow> bool \<times> real \<times> int \<times> bool \<Rightarrow> (bool \<times> real \<times> int \<times> bool) option" where
  "detect_tier2 sv g text officer_credibility_score quick_flags st =
     (if \<not> is_loaded g \<or> False then
        (if gemini_api_key sv then
           (case gemini sv text officer_credibility_score of
              Parsed result \<Rightarrow>
                (let is_fake = get_default (l_is_fake result) False;
                     conf = get_default (l_confidence result) (5/10);
                     credibility_penalty = get_default (l_credibility_penalty result) 0;
                     cu = get_default (l_can_upload result) True
                 in if is_suspicious quick_flags then
                      Some (is_fake, max conf (q_confidence quick_flags),
                            (if penalty quick_flags > credibility_penalty
                             then penalty quick_flags else credibility_penalty),
                            cu)
                    else Some (is_fake, conf, credibility_penalty, cu))
            | GeminiRaised \<Rightarrow> None
            | NoJsonObject \<Rightarrow> None
            | JsonDecodeError \<Rightarrow> None)
         else
           (let is_fake = is_suspicious quick_flags
            in Some (is_fake, q_confidence quick_flags, penalty quick_flags,
                     \<not> is_fake \<and> officer_credibility_score \<ge> 20)))
      else Some st)"

definition detect_fake_report :: "services \<Rightarrow> ml_globals \<Rightarrow> detect_request \<Rightarrow> detect_result response" where
  "detect_fake_report sv g req =
     (if d_report_text req = [] then BadRequest
      else
        (let officer_credibility_score = get_default (d_officer_credibility_score req) 50;
             quick_flags = quick_fake_check (d_report_text req) officer_credibility_score
         in case detect_tier1 sv g (d_report_text req) officer_credibility_score quick_flags of
              None \<Rightarrow> ServerError
            | Some (st, g') \<Rightarrow>
                (case detect_tier2 sv g' (d_report_text req) officer_credibility_score quick_flags st of
                   None \<Rightarrow> ServerError
                 | Some (is_fake, conf, credibility_penalty, cu) \<Rightarrow>
                     Ok \<lparr>d_is_fake = is_fake, d_confidence = conf,
                         d_credibility_penalty = credibility_penalty, can_upload = cu,
                         d_new_credibility_score =
                           new_credibility_score officer_credibility_score credibility_penalty\<rparr>)))"


section \<open>Keyword classification in \<^verbatim>\<open>auto_extract_and_classify\<close>\<close>

text \<open>\<^verbatim>\<open>match_any(words)\<close>: a search for \<^verbatim>\<open>\b(?:w1|...|wn)\b\<close> in the lowered text.\<close>

definition match_any :: "string list \<Rightarrow> string \<Rightarrow> bool" where
  "match_any words text_lower = list_ex (\<lambda>w. occurs_wb w None text_lower) words"

definition person_keywords :: "string list" where
  "person_keywords = [''person'', ''child'', ''children'', ''boy'', ''girl'', ''baby'', ''infant'',
     ''toddler'', ''kid'', ''kids'', ''woman'', ''man'', ''women'', ''men'', ''boy'', ''girl'',
     ''student'', ''student'']"

definition kidnapping_words :: "string list" where
  "kidnapping_words = [''kidnap'', ''kidnapped'', ''kidnapping'', ''abduct'', ''abducted'', ''abduction'',
     ''taken'', ''forcibly taken'', ''grabbed'', ''missing child'', ''child missing'']"

definition missing_child_words :: "string list" where
  "missing_child_words = [''missing child'', ''child missing'']"

definition weapon_words :: "string list" where
  "weapon_words = [''gun'', ''guns'', ''pistol'', ''rifle'', ''firearm'', ''armed'', ''knife'', ''knives'',
     ''blade'', ''bomb'']"

definition robbery_words :: "string list" where
  "robbery_words = [''robbery'', ''robbed'', ''steal'', ''stole'', ''snatch'', ''snatched'']"

definition theft_words :: "string list" where
  "theft_words = [''stolen'', ''theft'', ''wallet'', ''phone'', ''bag'', ''stole'', ''steal'', ''stealing'',
     ''steals'', ''pickpocket'', ''pick-pocket'', ''snatched'']"

definition has_person :: "string \<Rightarrow> bool" where
  "has_person text = match_any person_keywords (lower text)"

definition has_kidnapping :: "string \<Rightarrow> bool" where
  "has_kidnapping text =
     ((match_any kidnapping_words (lower text) \<and> has_person text)
      \<or> match_any missing_child_words (lower text))"

definition has_weapon :: "string \<Rightarrow> bool" where
  "has_weapon text = match_any weapon_words (lower text)"

definition has_robbery :: "string \<Rightarrow> bool" where
  "has_robbery text = match_any robbery_words (lower text)"

definition has_theft :: "string \<Rightarrow> bool" where
  "has_theft text = match_any theft_words (lower text)"

text \<open>The reasoning strings the function sets, one constructor for each; the emoji and
  the wording are in the source.\<close>

datatype crime_reasoning =
    KidnappingEscalated | WeaponRobberyOverride | WeaponOverride | TheftOverride
  | MlModelReasoning string real

text \<open>The classification fields of \<^verbatim>\<open>extracted\<close>.\<close>

record extracted =
  auto_crime_type :: "string option"
  auto_crime_confidence :: real
  auto_crime_reasoning :: "crime_reasoning option"

text \<open>The heuristics after the model (lines 596 to 629).\<close>

definition fallback_heuristics :: "string \<Rightarrow> extracted" where
  "fallback_heuristics text =
     (let text_lower = lower text;
          ty = (\<lambda>t c. \<lparr>auto_crime_type = t, auto_crime_confidence = c, auto_crime_reasoning = None\<rparr>)
      in if match_any [''rape'', ''raped'', ''sexual assault'', ''molest'', ''molestation'', ''abuse'',
                       ''sexual abuse''] text_lower
         then ty (Some ''Rape'') (96/100)
         else if match_any [''murder'', ''killed'', ''homicide'', ''dead'', ''body'', ''corpse''] text_lower
         then ty (Some ''Murder'') (95/100)
         else if match_any [''stolen'', ''theft'', ''wallet'', ''phone'', ''bag'', ''stole'', ''steal'',
                            ''stealing'', ''steals'', ''pickpocket'', ''pick-pocket''] text_lower
         then (if \<not> match_any [''person'', ''child'', ''girl'', ''boy'', ''woman'', ''man'', ''kid''] text_lower
               then ty (Some ''Theft'') (88/100)
               else ty (Some ''Assault'') (85/100))
         else if match_any [''fire'', ''arson'', ''burn'', ''burning''] text_lower
         then ty (Some ''Arson'') (82/100)
         else if match_any [''burglary'', ''break-in'', ''broke in'', ''breaking in'', ''trespass''] text_lower
         then ty (Some ''Burglary'') (86/100)
         else if match_any [''assault'', ''attacked'', ''injured'', ''fight'', ''fighting'', ''brawl'',
                            ''beat up'', ''beaten''] text_lower
         then ty (Some ''Assault'') (88/100)
         else if match_any [''vandal'', ''vandalism'', ''graffiti'', ''damaged'', ''destruction'',
                            ''property damage''] text_lower
         then ty (Some ''Vandalism'') (80/100)
         else ty None (30/100))"

text \<open>The stage after the keyword overrides: the crime-type model when it is available and
  its inference succeeds (\<open>Some (label, confidence)\<close>), the fallback heuristics otherwise.\<close>

definition model_or_fallback :: "(string \<Rightarrow> (string \<times> real) option) \<Rightarrow> string \<Rightarrow> extracted" where
  "model_or_fallback crime_model text =
     (case crime_model text of
        Some (label, conf) \<Rightarrow>
          \<lparr>auto_crime_type = Some label, auto_crime_confidence = conf,
           auto_crime_reasoning = Some (MlModelReasoning label conf)\<rparr>
      | None \<Rightarrow> fallback_heuristics text)"

definition auto_extract_and_classify :: "(string \<Rightarrow> (string \<times> real) option) \<Rightarrow> string \<Rightarrow> extracted" where
  "auto_extract_and_classify crime_model text_to_analyze =
     (if has_kidnapping text_to_analyze \<or> has_weapon text_to_analyze then
        (if has_kidnapping text_to_analyze then
           \<lparr>auto_crime_type = Some ''Murder'', auto_crime_confidence = 97/100,
            auto_crime_reasoning = Some KidnappingEscalated\<rparr>
         else if has_weapon text_to_analyze \<and> has_robbery text_to_analyze then
           \<lparr>auto_crime_type = Some ''Armed Robbery'', auto_crime_confidence = 95/100,
            auto_crime_reasoning = Some WeaponRobberyOverride\<rparr>
         else
           \<lparr>auto_crime_type = Some ''Armed Robbery'', auto_crime_confidence = 93/100,
            auto_crime_reasoning = Some WeaponOverride\<rparr>)
      else if has_theft text_to_analyze \<and> \<not> has_weapon text_to_analyze then
        \<lparr>auto_crime_type = Some ''Theft'', auto_crime_confidence = 89/100,
         auto_crime_reasoning = Some TheftOverride\<rparr>
      else model_or_fallback crime_model text_to_analyze)"


section \<open>Keyword overrides in \<^verbatim>\<open>predict_crime_type\<close>\<close>

text \<open>Lines 2770 to 2926: the overrides applied to the model's label and confidence. Here
  the keywords are tested with \<^verbatim>\<open>in\<close>, as substrings, and the kidnapping branch has no
  person test.\<close>

record crime_prediction =
  crime_type :: string
  crime_confidence :: real
  detected_issue :: "string option"
  minor_alert :: bool

definition pc_kidnapping_keywords :: "string list" where
  "pc_kidnapping_keywords = [''kidnap'', ''kidnapped'', ''kidnapping'', ''abduct'', ''abducted'', ''taken'',
     ''missing child'', ''child missing'', ''snatched'', ''snatch'', ''missing'', ''went missing'',
     ''disappeared'']"

definition pc_weapon_keywords :: "string list" where
  "pc_weapon_keywords = [''gun'', ''guns'', ''pistol'', ''rifle'', ''firearm'', ''armed'', ''knife'',
     ''knives'', ''blade'', ''bomb'', ''weapon'', ''weapons'']"

definition pc_theft_keywords :: "string list" where
  "pc_theft_keywords = [''stolen'', ''theft'', ''wallet'', ''phone'', ''bag'', ''stole'', ''steal'',
     ''stealing'', ''steals'', ''pickpocket'', ''pick-pocket'', ''snatched'', ''snatch'', ''took my'']"

definition pc_burglary_keywords :: "string list" where
  "pc_burglary_keywords = [''broke into'', ''break in'', ''burglary'', ''burglar'', ''breaking in'',
     ''house break-in'', ''home invasion'', ''broke in'']"

definition pc_assault_keywords :: "string list" where
  "pc_assault_keywords = [''fighting'', ''fight'', ''punch'', ''hit'', ''beat'', ''attack'', ''attacked'',
     ''assaulted'', ''assault'', ''brawl'', ''punching'']"

definition pc_rape_keywords :: "string list" where
  "pc_rape_keywords = [''raped'', ''rape'', ''sexual assault'', ''assaulted sexually'',
     ''sexually assaulted'', ''forced'', ''forced sex'', ''forced against will'']"

definition pc_sexual_harassment_keywords :: "string list" where
  "pc_sexual_harassment_keywords = [''sexual harassment'', ''sexually harassed'', ''harassed sexually'',
     ''inappropriate touch'', ''groping'', ''harassment'', ''unwanted advances'',
     ''touched inappropriately'', ''advances'']"

definition pc_drug_keywords :: "string list" where
  "pc_drug_keywords = [''drugs'', ''narcotics'', ''cocaine'', ''heroin'', ''marijuana'', ''cannabis'',
     ''meth'', ''drug offense'', ''dealer'', ''dealing'', ''powder'', ''white powder'',
     ''white substance'']"

definition pc_arson_keywords :: "string list" where
  "pc_arson_keywords = [''fire'', ''set fire'', ''burning'', ''arson'', ''burned'', ''burnt'',
     ''explosion'', ''exploded'', ''explosive'']"

definition pc_fraud_keywords :: "string list" where
  "pc_fraud_keywords = [''fraud'', ''scam'', ''scammed'', ''defraud'', ''defrauded'', ''cheated'',
     ''phishing'', ''fake'', ''hacked'', ''hacking'', ''hack'', ''cybercrime'', ''compromised'',
     ''drained my'', ''disappeared with money'', ''disappeared with client'',
     ''disappeared with company'', ''stole the money'', ''stole all'']"

definition pc_vandalism_keywords :: "string list" where
  "pc_vandalism_keywords = [''vandalism'', ''vandalized'', ''graffiti'', ''spray painted'', ''damaged'',
     ''defaced'', ''threw paint'', ''threw on walls'', ''paint on walls'', ''paint on'']"

definition pc_child_keywords :: "string list" where
  "pc_child_keywords = [''child'', ''children'', ''kid'', ''kids'', ''baby'', ''infant'', ''toddler'',
     ''minor'']"

definition pc_robbery_keywords :: "string list" where
  "pc_robbery_keywords = [''robbery'', ''robbed'', ''steal'', ''stole'', ''snatch'', ''taking belongings'',
     ''taking their'']"

definition predict_crime_type_overrides :: "string \<Rightarrow> string \<Rightarrow> real \<Rightarrow> crime_prediction" where
  "predict_crime_type_overrides description ml_crime_type ml_confidence =
     (let text_lower = lower description;
          has = (\<lambda>kws. any_in kws text_lower);
          out = (\<lambda>t c issue. \<lparr>crime_type = t, crime_confidence = max ml_confidence c,
                               detected_issue = issue, minor_alert = has pc_child_keywords\<rparr>)
      in if has pc_fraud_keywords then out ''Fraud'' (87/100) None
         else if has pc_kidnapping_keywords then out ''Murder'' (97/100) (Some ''kidnapping'')
         else if has pc_rape_keywords then out ''Rape'' (95/100) None
         else if has pc_weapon_keywords \<and> has pc_robbery_keywords then out ''Armed Robbery'' (92/100) None
         else if has pc_weapon_keywords \<and> has pc_theft_keywords then out ''Armed Robbery'' (92/100) None
         else if has pc_weapon_keywords then out ''Assault'' (90/100) None
         else if has pc_sexual_harassment_keywords \<and> \<not> has pc_rape_keywords
           then out ''Sexual Harassment'' (91/100) None
         else if has pc_drug_keywords then out ''Drug Offense'' (88/100) None
         else if has pc_arson_keywords then out ''Arson'' (90/100) None
         else if has pc_vandalism_keywords then out ''Vandalism'' (86/100) None
         else if has pc_burglary_keywords then out ''Burglary'' (88/100) None
         else if has pc_assault_keywords then out ''Assault'' (89/100) None
         else if has pc_theft_keywords \<and> \<not> has pc_weapon_keywords then out ''Theft'' (89/100) None
         else \<lparr>crime_type = ml_crime_type, crime_confidence = ml_confidence,
               detected_issue = None, minor_alert = has pc_child_keywords\<rparr>)"

section \<open>Example inputs\<close>

definition llm_says_fake :: llm_reply where
  "llm_says_fake = \<lparr>l_is_fake = Some True, l_confidence = Some (9/10),
                     l_credibility_penalty = Some 20, l_can_upload = None\<rparr>"

definition not_loaded :: ml_globals where
  "not_loaded = \<lparr>ml_fake_model = None, ml_loading_attempted = False\<rparr>"



section \<open>Properties of the escalation override engine\<close>

lemma hostage_is_life_threatening: "has_life_threatening ''hostage''"
  by code_simp

lemma hostage_no_child_safety: "\<not> has_child_safety_concerns ''hostage''"
  by code_simp

text \<open>
  C4, as the source has it. A description with life-threatening vocabulary always ends with
  risk High, and the downgrade override is disabled whatever the other conditions are. The
  confidence 0.95 with the vector (0.02, 0.03, 0.95) is set when the model's risk was not
  High and no child-safety vocabulary is present; when the model's risk was already High the
  guard \<^verbatim>\<open>predicted_risk != 'High'\<close> skips the upgrade, and the model's probabilities and
  the penalty-adjusted confidence pass through.
\<close>

theorem life_threatening_forces_high:
  assumes "has_life_threatening d"
  shows "predicted_risk (escalation_overrides d n pred raw) = High
    \<and> \<not> should_override d n r
    \<and> (pred \<noteq> High \<and> \<not> has_child_safety_concerns d \<longrightarrow>
         confidence (escalation_overrides d n pred raw) = 95/100
       \<and> probs (escalation_overrides d n pred raw) = \<lparr>p_low = 2/100, p_medium = 3/100, p_high = 95/100\<rparr>)
    \<and> (pred = High \<longrightarrow>
         confidence (escalation_overrides d n pred raw) = adjusted_confidence n (p_high raw)
       \<and> probs (escalation_overrides d n pred raw) = raw)"
  using assms
  by (simp add: escalation_overrides_def upgrade_child_def upgrade_life_def should_override_def Let_def)

theorem life_threatening_forces_high_witness:
  "has_life_threatening ''hostage''
   \<and> predicted_risk (escalation_overrides ''hostage'' 5 Low \<lparr>p_low = 8/10, p_medium = 1/10, p_high = 1/10\<rparr>) = High
   \<and> confidence (escalation_overrides ''hostage'' 5 Low \<lparr>p_low = 8/10, p_medium = 1/10, p_high = 1/10\<rparr>) = 95/100
   \<and> \<not> should_override ''hostage'' 5 High"
  using life_threatening_forces_high [OF hostage_is_life_threatening,
          of 5 Low "\<lparr>p_low = 8/10, p_medium = 1/10, p_high = 1/10\<rparr>" High]
        hostage_is_life_threatening hostage_no_child_safety
  by simp

text \<open>
  C4 as stated fails: with the word hostage and a model that already says High with
  probability 0.7, the confidence returned is 0.7, not 0.95.
\<close>

theorem life_threatening_confidence_counterexample:
  "has_life_threatening ''hostage''
   \<and> confidence (escalation_overrides ''hostage'' 0 High \<lparr>p_low = 1/10, p_medium = 2/10, p_high = 7/10\<rparr>) = 7/10
   \<and> confidence (escalation_overrides ''hostage'' 0 High \<lparr>p_low = 1/10, p_medium = 2/10, p_high = 7/10\<rparr>) \<noteq> 95/100"
  by code_simp

text \<open>The child-safety upgrade runs first: with both vocabularies and a model that says
  Low, the result is High with the child-safety confidence 0.85.\<close>

lemma child_safety_runs_first:
  "has_life_threatening ''child held hostage''
   \<and> escalation_overrides ''child held hostage'' 0 Low \<lparr>p_low = 7/10, p_medium = 2/10, p_high = 1/10\<rparr>
     = \<lparr>predicted_risk = High, confidence = 85/100,
        probs = \<lparr>p_low = 5/100, p_medium = 10/100, p_high = 85/100\<rparr>, error = None\<rparr>"
  by code_simp

lemma loud_noise_flags:
  "\<not> has_life_threatening ''loud noise from neighbors''"
  "\<not> has_child_safety_concerns ''loud noise from neighbors''"
  "\<not> has_violence_keywords ''loud noise from neighbors''"
  "has_generic_keywords ''loud noise from neighbors''"
  "is_generic_description ''loud noise from neighbors''"
  by code_simp+

text \<open>
  C5, as the source has it. The downgrade fires exactly when there is no life-threatening,
  child-safety or violence vocabulary, the model's risk is High, and either Case 1 holds
  (unknown ratio above 0.3 and fewer than 8 words) or Case 2 holds (generic noise
  vocabulary is present, whatever the ratio and the length). It yields Low with 0.60 when
  generic vocabulary is present and Medium with 0.55 otherwise. When neither it nor an
  upgrade fires, risk and probabilities are the model's and the confidence is
  \<open>max 0.3 (raw - 0.15 n)\<close>.
\<close>

theorem downgrade_override_cases:
  "(\<not> has_life_threatening d \<and> \<not> has_child_safety_concerns d \<and> \<not> has_violence_keywords d
      \<and> pred = High
      \<and> ((3/10 < unknown_ratio n \<and> is_generic_description d) \<or> has_generic_keywords d)
    \<longrightarrow> escalation_overrides d n pred raw =
          (if has_generic_keywords d
           then \<lparr>predicted_risk = Low, confidence = 60/100,
                 probs = \<lparr>p_low = 60/100, p_medium = 35/100, p_high = 5/100\<rparr>, error = None\<rparr>
           else \<lparr>predicted_risk = Medium, confidence = 55/100,
                 probs = \<lparr>p_low = 20/100, p_medium = 55/100, p_high = 25/100\<rparr>, error = None\<rparr>))
   \<and> (\<not> (\<not> has_life_threatening d \<and> \<not> has_child_safety_concerns d \<and> \<not> has_violence_keywords d
         \<and> pred = High
         \<and> ((3/10 < unknown_ratio n \<and> is_generic_description d) \<or> has_generic_keywords d))
      \<and> (pred = High \<or> (\<not> has_life_threatening d \<and> \<not> has_child_safety_concerns d))
    \<longrightarrow> escalation_overrides d n pred raw =
          \<lparr>predicted_risk = pred, confidence = max (3/10) (prob_of raw pred - real n * (15/100)),
           probs = raw, error = None\<rparr>)"
  by (auto simp add: escalation_overrides_def upgrade_child_def upgrade_life_def should_override_def
        apply_override_def adjusted_confidence_def Let_def)

theorem downgrade_override_cases_witness:
  "3/10 < unknown_ratio 4
   \<and> escalation_overrides ''loud noise from neighbors'' 4 High \<lparr>p_low = 1/10, p_medium = 1/10, p_high = 8/10\<rparr>
       = \<lparr>predicted_risk = Low, confidence = 60/100,
          probs = \<lparr>p_low = 60/100, p_medium = 35/100, p_high = 5/100\<rparr>, error = None\<rparr>
   \<and> escalation_overrides ''loud noise from neighbors'' 4 Medium \<lparr>p_low = 1/10, p_medium = 8/10, p_high = 1/10\<rparr>
       = \<lparr>predicted_risk = Medium, confidence = 3/10,
          probs = \<lparr>p_low = 1/10, p_medium = 8/10, p_high = 1/10\<rparr>, error = None\<rparr>"
  using downgrade_override_cases [of "''loud noise from neighbors''" High 4
          "\<lparr>p_low = 1/10, p_medium = 1/10, p_high = 8/10\<rparr>"]
        downgrade_override_cases [of "''loud noise from neighbors''" Medium 4
          "\<lparr>p_low = 1/10, p_medium = 8/10, p_high = 1/10\<rparr>"]
        loud_noise_flags
  by (simp add: unknown_ratio_def)

text \<open>
  C5 as stated fails: with no unknown category at all (ratio 0), the words loud noise and a
  model that says High, Case 2 downgrades to Low.
\<close>

theorem downgrade_without_unknown_counterexample:
  "\<not> 3/10 < unknown_ratio 0
   \<and> predicted_risk (escalation_overrides ''loud noise from neighbors'' 0 High
        \<lparr>p_low = 1/10, p_medium = 1/10, p_high = 8/10\<rparr>) = Low
   \<and> confidence (escalation_overrides ''loud noise from neighbors'' 0 High
        \<lparr>p_low = 1/10, p_medium = 1/10, p_high = 8/10\<rparr>) = 60/100"
  by code_simp

text \<open>
  C10. Whatever the input, \<^verbatim>\<open>predict_escalation_risk\<close> returns a verdict; when the model
  is not loaded, or the body of the \<^verbatim>\<open>try\<close> block raises, the verdict is Medium with
  confidence 0, probabilities (0.33, 0.34, 0.33) and an error field.
\<close>

theorem predict_escalation_risk_fallback:
  "(loaded = None \<or> (\<exists>m e. loaded = Some m \<and> predict_body m inc = Inl e)) \<longrightarrow>
     predicted_risk (predict_escalation_risk loaded inc) = Medium
   \<and> confidence (predict_escalation_risk loaded inc) = 0
   \<and> probs (predict_escalation_risk loaded inc) = \<lparr>p_low = 33/100, p_medium = 34/100, p_high = 33/100\<rparr>
   \<and> error (predict_escalation_risk loaded inc) \<noteq> None"
  by (auto simp add: predict_escalation_risk_def fallback_verdict_def)

lemma predict_body_no_datetime:
  "predict_body \<lparr>label_encoders = Map.empty, network = (\<lambda>d encs u. Inl ''RuntimeError'')\<rparr>
     \<lparr>i_description = Some ''hostage'', i_location = None, i_sub_location = None,
      i_crime_type = None, i_is_user_report = None, i_part_of_day = None, i_datetime = None\<rparr>
   = Inl ''AttributeError''"
  by (simp add: predict_body_def)

theorem predict_escalation_risk_fallback_witness:
  "predicted_risk (predict_escalation_risk None
       \<lparr>i_description = Some ''hostage'', i_location = None, i_sub_location = None,
        i_crime_type = None, i_is_user_report = None, i_part_of_day = None, i_datetime = None\<rparr>) = Medium
   \<and> error (predict_escalation_risk
       (Some \<lparr>label_encoders = Map.empty, network = (\<lambda>d encs u. Inl ''RuntimeError'')\<rparr>)
       \<lparr>i_description = Some ''hostage'', i_location = None, i_sub_location = None,
        i_crime_type = None, i_is_user_report = None, i_part_of_day = None, i_datetime = None\<rparr>) \<noteq> None"
  using predict_escalation_risk_fallback [of None
          "\<lparr>i_description = Some ''hostage'', i_location = None, i_sub_location = None,
            i_crime_type = None, i_is_user_report = None, i_part_of_day = None, i_datetime = None\<rparr>"]
        predict_escalation_risk_fallback [of
          "Some \<lparr>label_encoders = Map.empty, network = (\<lambda>d encs u. Inl ''RuntimeError'')\<rparr>"
          "\<lparr>i_description = Some ''hostage'', i_location = None, i_sub_location = None,
            i_crime_type = None, i_is_user_report = None, i_part_of_day = None, i_datetime = None\<rparr>"]
        predict_body_no_datetime
  by simp

section \<open>Properties of the heuristic suspicion scorer\<close>

lemma flag_pair: "flag b r w acc = (fst acc @ (if b then [r] else []), snd acc + (if b then w else 0))"
  by (simp add: flag_def)

lemma filter_step: "filter P (x # xs) = (if P x then [x] else []) @ filter P xs"
  by simp

lemma sum_step: "sum_list (map w ((if b then [x] else []) @ xs)) = (if b then w x else 0) + sum_list (map w xs)"
  by simp

lemma fired_implausible:
  "fired t c (Implausible ''1000+'') = re_search (fst (implausible_patterns ! 0)) (lower t)"
  "fired t c (Implausible ''999'') = re_search (fst (implausible_patterns ! 1)) (lower t)"
  "fired t c (Implausible ''100+ criminals'') = re_search (fst (implausible_patterns ! 2)) (lower t)"
  "fired t c (Implausible ''million losses'') = re_search (fst (implausible_patterns ! 3)) (lower t)"
  "fired t c (Implausible ''50+ shots'') = re_search (fst (implausible_patterns ! 4)) (lower t)"
  "fired t c (Implausible ''constant occurrence'') = re_search (fst (implausible_patterns ! 5)) (lower t)"
  by (simp_all add: implausible_patterns_def)

lemma emit_emit: "emit t c rs2 (emit t c rs1 acc) = emit t c (rs1 @ rs2) acc"
  by (simp add: emit_def)

text \<open>Each block of the source appends exactly the reasons of its rows of the table.\<close>

lemma check_gibberish_emit:
  "check_gibberish (lower t) (split t) acc = emit t c [LowVowelRatio, ConsonantClusters, UnrecognizableWords] acc"
  by (simp add: check_gibberish_def flag_def emit_def Let_def)

lemma check_brevity_emit:
  "check_brevity (split t) acc = emit t c [ExtremelyBrief, VeryShort] acc"
  by (simp add: check_brevity_def flag_def emit_def)

lemma check_jokes_emit:
  "check_jokes (lower t) acc = emit t c [JokeIndicators] acc"
  by (simp add: check_jokes_def flag_def emit_def)

lemma check_implausible_emit:
  "check_implausible implausible_patterns (lower t) acc =
     emit t c [Implausible ''1000+'', Implausible ''999'', Implausible ''100+ criminals'',
      Implausible ''million losses'', Implausible ''50+ shots'', Implausible ''constant occurrence''] acc"
  unfolding emit_def filter_step sum_step fired_implausible
  unfolding implausible_patterns_def check_implausible.simps flag_pair
  by (simp del: any_of.simps)

lemma check_contradictory_emit:
  "check_contradictory (lower t) acc = emit t c [Contradictory] acc"
  by (simp add: check_contradictory_def flag_def emit_def)

lemma check_punctuation_emit:
  "check_punctuation (lower t) (split t) acc = emit t c [ExcessivePunctuation, ExcessiveCapitalization] acc"
  by (simp add: check_punctuation_def flag_def emit_def Let_def)

lemma check_vague_emit:
  "check_vague (lower t) acc = emit t c [VagueTerms] acc"
  by (simp add: check_vague_def flag_def emit_def Let_def)

lemma check_disclaimer_emit:
  "check_disclaimer (lower t) acc = emit t c [DisclaimerLanguage] acc"
  by (simp add: check_disclaimer_def flag_def emit_def)

lemma check_credibility_emit:
  "check_credibility c acc = emit t c [LowCredibility] acc"
  by (simp add: check_credibility_def flag_def emit_def)

lemma check_crime_elements_emit:
  "check_crime_elements (lower t) (split t) acc = emit t c [NoCrimeKeywords, NonCrimeKeywords] acc"
  by (simp add: check_crime_elements_def flag_def emit_def Let_def)

lemma run_checks_emit: "run_checks t c = emit t c all_reasons ([], 0)"
  unfolding run_checks_def Let_def
  by (simp only: check_gibberish_emit [of t _ c] check_brevity_emit [of t _ c] check_jokes_emit [of t _ c]
      check_implausible_emit [of t _ c] check_contradictory_emit [of t _ c] check_punctuation_emit [of t _ c]
      check_vague_emit [of t _ c] check_disclaimer_emit [of t _ c] check_credibility_emit [of c _ t]
      check_crime_elements_emit [of t _ c] emit_emit all_reasons_def append.simps)

lemma reasons_fired: "reasons (quick_fake_check t c) = filter (fired t c) all_reasons"
  by (simp add: quick_fake_check_def run_checks_emit emit_def)

lemma penalty_fired:
  "penalty (quick_fake_check t c) = min (sum_list (map weight (filter (fired t c) all_reasons))) 25"
  by (simp add: quick_fake_check_def run_checks_emit emit_def)

lemma suspicious_fired:
  "is_suspicious (quick_fake_check t c) = (8 \<le> sum_list (map weight (filter (fired t c) all_reasons)))"
  by (simp add: quick_fake_check_def run_checks_emit emit_def)

lemma weight_nonneg: "0 \<le> weight r"
  by (cases r) simp_all

lemma distinct_all_reasons: "distinct all_reasons"
  by (simp add: all_reasons_def)

lemma filter_sum_mono:
  "distinct xs \<Longrightarrow> set (filter P xs) \<subseteq> set (filter Q xs) \<Longrightarrow>
   sum_list (map weight (filter P xs)) \<le> sum_list (map weight (filter Q xs))"
proof (induction xs)
  case Nil
  then show ?case by simp
next
  case (Cons x xs)
  from Cons.prems have px: "P x \<Longrightarrow> Q x" and sub: "set (filter P xs) \<subseteq> set (filter Q xs)"
    by (auto split: if_splits)
  from Cons.IH [OF _ sub] Cons.prems(1)
  have ih: "sum_list (map weight (filter P xs)) \<le> sum_list (map weight (filter Q xs))" by simp
  show ?case using ih px weight_nonneg [of x] by (cases "P x"; cases "Q x") simp_all
qed

lemma gun_reasons: "reasons (quick_fake_check ''gun'' 50) = [ExtremelyBrief]"
  by code_simp

lemma gun_lol_reasons: "reasons (quick_fake_check ''gun lol'' 50) = [ExtremelyBrief, JokeIndicators]"
  by code_simp

lemma gun_penalties:
  "penalty (quick_fake_check ''gun'' 50) = 5" "penalty (quick_fake_check ''gun lol'' 50) = 25"
  by code_simp+

text \<open>
  C8, as the source has it. For a fixed credibility the penalty is monotone in the checks
  that fire: when every reason reported for the base text is also reported for the extended
  text, the penalty of the extended text is not smaller.
\<close>

theorem penalty_monotone_in_fired_checks:
  assumes "set (reasons (quick_fake_check base c)) \<subseteq> set (reasons (quick_fake_check ext c))"
  shows "penalty (quick_fake_check base c) \<le> penalty (quick_fake_check ext c)"
proof -
  from assms have "set (filter (fired base c) all_reasons) \<subseteq> set (filter (fired ext c) all_reasons)"
    by (simp only: reasons_fired)
  from filter_sum_mono [OF distinct_all_reasons this]
  show ?thesis by (simp add: penalty_fired)
qed

theorem penalty_monotone_in_fired_checks_witness:
  "set (reasons (quick_fake_check ''gun'' 50)) \<subseteq> set (reasons (quick_fake_check ''gun lol'' 50))
   \<and> penalty (quick_fake_check ''gun'' 50) \<le> penalty (quick_fake_check ''gun lol'' 50)
   \<and> penalty (quick_fake_check ''gun'' 50) = 5"
  using penalty_monotone_in_fired_checks [of "''gun''" 50 "''gun lol''"]
  by (simp add: gun_reasons gun_lol_reasons gun_penalties)

text \<open>
  C8 as stated fails: the base text has penalty 24 (short, no crime vocabulary, non-crime
  vocabulary); with the trigger phrase 50 shots appended the implausible-number check fires,
  but the word shots is crime vocabulary, so the two heaviest checks no longer fire and the
  penalty is 10.
\<close>

theorem penalty_not_monotone_counterexample:
  "penalty (quick_fake_check ''the game app crashed again'' 50) = 24
   \<and> penalty (quick_fake_check ''the game app crashed again 50 shots'' 50) = 10"
  by code_simp

lemma six_gibberish_words: "5 < length (split ''xkcd qwrtp zxcvb mnbvc lkjhg pqrst'')"
  by code_simp

lemma six_gibberish_words_flags:
  "quick_fake_check ''xkcd qwrtp zxcvb mnbvc lkjhg pqrst'' 50 =
     \<lparr>is_suspicious = True, q_confidence = 56/100, penalty = 12, reasons = [VeryShort, NoCrimeKeywords]\<rparr>"
  by code_simp

text \<open>
  C9. For a text of more than five words none of the three gibberish reasons is reported,
  and the penalty is the capped sum of the penalties of the reasons that are reported, so
  the gibberish checks add nothing to it.
\<close>

theorem gibberish_checks_gated:
  assumes "5 < length (split t)"
  shows "LowVowelRatio \<notin> set (reasons (quick_fake_check t c))
       \<and> ConsonantClusters \<notin> set (reasons (quick_fake_check t c))
       \<and> UnrecognizableWords \<notin> set (reasons (quick_fake_check t c))
       \<and> penalty (quick_fake_check t c) = min (sum_list (map weight (reasons (quick_fake_check t c)))) 25"
  using assms by (simp add: reasons_fired penalty_fired)

theorem gibberish_checks_gated_witness:
  "5 < length (split ''xkcd qwrtp zxcvb mnbvc lkjhg pqrst'')
   \<and> LowVowelRatio \<notin> set (reasons (quick_fake_check ''xkcd qwrtp zxcvb mnbvc lkjhg pqrst'' 50))
   \<and> penalty (quick_fake_check ''xkcd qwrtp zxcvb mnbvc lkjhg pqrst'' 50) = 12"
  using gibberish_checks_gated [OF six_gibberish_words, of 50] six_gibberish_words
  by (simp add: six_gibberish_words_flags)


section \<open>Properties of the verification cascade\<close>

lemma bike_theft_pre_screening: "pre_screening ''bike theft'' 50 = None"
  by code_simp

lemma bike_theft_no_safety: "\<not> safety_keywords_present ''bike theft''"
  by code_simp

lemma gun_safety: "safety_keywords_present ''man with a gun''"
  by code_simp

lemma gun_pre_screening: "pre_screening ''man with a gun'' 50 = None"
  by (simp add: pre_screening_def gun_safety)


text \<open>
  C2, as the source has it. For a report that reaches the ML tier and that the classifier
  labels fake with confidence \<open>conf\<close>: below 0.60 the verdict is final at the ML tier, not
  fake, with penalty 0 and no ledger write, whatever the language-model service would say;
  from 0.60 up to 0.70 the cascade falls through and adopts the reply of the language-model
  service; from 0.70 on the verdict is final at the ML tier and fake.
\<close>

theorem ml_fake_confidence_bands:
  assumes "report_id req \<noteq> []" and "report_text req \<noteq> []"
    and "0 < get_default (stored_score req) 50"
    and "pre_screening (report_text req) (get_default (stored_score req) 50) = None"
    and "\<not> safety_keywords_present (report_text req)"
    and "lazy_load_ml_model (load_ml sv) g = (True, g')"
    and "ml_fake_model g' = Some m"
    and "m (report_text req) = Inr (True, conf)"
  shows "(conf < 60/100 \<longrightarrow>
           auto_verify_report sv g req =
             Ok \<lparr>r_is_fake = False, r_confidence = conf, r_credibility_penalty = 0,
                 verified_by = MlModel,
                 r_new_credibility_score = new_credibility_score (get_default (stored_score req) 50) 0,
                 r_written_score = None\<rparr>)
       \<and> (60/100 \<le> conf \<and> conf < 70/100 \<and> gemini_api_key sv
            \<and> gemini sv (report_text req) (get_default (stored_score req) 50) = Parsed reply \<longrightarrow>
           (case auto_verify_report sv g req of
              Ok r \<Rightarrow> verified_by r = GeminiApi
                     \<and> r_is_fake r = get_default (l_is_fake reply) False
                     \<and> r_credibility_penalty r = get_default (l_credibility_penalty reply) 0
            | _ \<Rightarrow> False))
       \<and> (70/100 \<le> conf \<longrightarrow>
           (case auto_verify_report sv g req of
              Ok r \<Rightarrow> verified_by r = MlModel \<and> r_is_fake r \<and> r_confidence r = conf
            | _ \<Rightarrow> False))"
  using assms
  by (auto simp add: auto_verify_report_def verify_tier1_def verify_tier2_def ml_tier_def
        predict_fake_with_ml_model_def is_loaded_def update_user_credibility_def Let_def)

theorem ml_fake_confidence_bands_witness:
  "auto_verify_report
     \<lparr>load_ml = LoadOk (\<lambda>t. Inr (True, 65/100)), gemini_api_key = True,
      gemini = (\<lambda>t c. Parsed llm_says_fake)\<rparr>
     not_loaded
     \<lparr>report_id = ''r1'', report_text = ''bike theft'', stored_score = Some 50\<rparr>
   = Ok \<lparr>r_is_fake = True, r_confidence = 9/10, r_credibility_penalty = 20,
         verified_by = GeminiApi, r_new_credibility_score = 30, r_written_score = Some 30\<rparr>
   \<and> (case auto_verify_report
       \<lparr>load_ml = LoadOk (\<lambda>t. Inr (True, 55/100)), gemini_api_key = False,
        gemini = (\<lambda>t c. GeminiRaised)\<rparr>
       not_loaded
       \<lparr>report_id = ''r1'', report_text = ''bike theft'', stored_score = Some 50\<rparr>
      of Ok r \<Rightarrow> \<not> r_is_fake r \<and> verified_by r = MlModel | _ \<Rightarrow> False)"
  using ml_fake_confidence_bands [of
          "\<lparr>report_id = ''r1'', report_text = ''bike theft'', stored_score = Some 50\<rparr>"
          "\<lparr>load_ml = LoadOk (\<lambda>t. Inr (True, 65/100)), gemini_api_key = True,
            gemini = (\<lambda>t c. Parsed llm_says_fake)\<rparr>"
          not_loaded
          "\<lparr>ml_fake_model = Some (\<lambda>t. Inr (True, 65/100)), ml_loading_attempted = True\<rparr>"
          "\<lambda>t. Inr (True, 65/100)" "65/100" llm_says_fake]
        ml_fake_confidence_bands [of
          "\<lparr>report_id = ''r1'', report_text = ''bike theft'', stored_score = Some 50\<rparr>"
          "\<lparr>load_ml = LoadOk (\<lambda>t. Inr (True, 55/100)), gemini_api_key = False,
            gemini = (\<lambda>t c. GeminiRaised)\<rparr>"
          not_loaded
          "\<lparr>ml_fake_model = Some (\<lambda>t. Inr (True, 55/100)), ml_loading_attempted = True\<rparr>"
          "\<lambda>t. Inr (True, 55/100)" "55/100" llm_says_fake]
        bike_theft_pre_screening bike_theft_no_safety
  by (simp add: lazy_load_ml_model_def not_loaded_def get_default_def llm_says_fake_def
        auto_verify_report_def verify_tier1_def verify_tier2_def ml_tier_def
        predict_fake_with_ml_model_def is_loaded_def update_user_credibility_def
        new_credibility_score_def split: response.splits)

text \<open>
  C2 as stated fails: the classifier says fake with confidence 0.55, the language-model
  service is configured and would say fake, and the verdict is the ML tier's: not fake.
\<close>

theorem ml_fake_055_finalizes_counterexample:
  "auto_verify_report
     \<lparr>load_ml = LoadOk (\<lambda>t. Inr (True, 55/100)), gemini_api_key = True,
      gemini = (\<lambda>t c. Parsed llm_says_fake)\<rparr>
     not_loaded
     \<lparr>report_id = ''r1'', report_text = ''bike theft'', stored_score = None\<rparr>
   = Ok \<lparr>r_is_fake = False, r_confidence = 55/100, r_credibility_penalty = 0,
         verified_by = MlModel, r_new_credibility_score = 50, r_written_score = None\<rparr>"
  by (simp add: auto_verify_report_def verify_tier1_def verify_tier2_def ml_tier_def
        predict_fake_with_ml_model_def is_loaded_def update_user_credibility_def Let_def
        lazy_load_ml_model_def not_loaded_def get_default_def new_credibility_score_def
        bike_theft_pre_screening bike_theft_no_safety)

text \<open>With the classifier loaded, a report with weapon or kidnapping vocabulary gets the
  safety verdict.\<close>

lemma safety_bypass_when_loaded:
  assumes "report_id req \<noteq> []" and "report_text req \<noteq> []"
    and "0 < get_default (stored_score req) 50"
    and "safety_keywords_present (report_text req)"
    and "is_loaded g"
  shows "auto_verify_report sv g req =
           Ok \<lparr>r_is_fake = False, r_confidence = 1, r_credibility_penalty = 0,
               verified_by = SafetyHeuristics,
               r_new_credibility_score = new_credibility_score (get_default (stored_score req) 50) 0,
               r_written_score = None\<rparr>"
  using assms
  by (simp add: auto_verify_report_def verify_tier1_def verify_tier2_def pre_screening_def
        update_user_credibility_def Let_def)

text \<open>
  C7 at a failing input. The safety branch does not call the lazy loader, so before the
  first load \<^verbatim>\<open>ML_FAKE_MODEL\<close> is still \<^verbatim>\<open>None\<close>, the test of tier 2 holds, and the
  language-model service is asked about a report with the word gun: its verdict, fake with
  penalty 20, replaces the safety verdict and is written to the ledger.
\<close>

theorem safety_bypass_overridden_before_load:
  "safety_keywords_present ''man with a gun''
   \<and> auto_verify_report
       \<lparr>load_ml = LoadOk (\<lambda>t. Inr (False, 99/100)), gemini_api_key = True,
        gemini = (\<lambda>t c. Parsed llm_says_fake)\<rparr>
       not_loaded
       \<lparr>report_id = ''r1'', report_text = ''man with a gun'', stored_score = None\<rparr>
     = Ok \<lparr>r_is_fake = True, r_confidence = 9/10, r_credibility_penalty = 20,
           verified_by = GeminiApi, r_new_credibility_score = 30, r_written_score = Some 30\<rparr>"
  by (simp add: auto_verify_report_def verify_tier1_def verify_tier2_def
        is_loaded_def update_user_credibility_def Let_def llm_says_fake_def
        not_loaded_def get_default_def new_credibility_score_def
        gun_pre_screening gun_safety)

text \<open>
  C3, as the source has it, for \<^verbatim>\<open>detect_fake_report\<close>. When the ML tier or the heuristic
  tier gives the verdict, \<^verbatim>\<open>can_upload\<close> is \<open>\<not> is_fake \<and> credibility \<ge> 20\<close>. When the
  language-model tier gives it, \<^verbatim>\<open>can_upload\<close> is the field of that name in the reply,
  true when the field is absent.
\<close>

theorem can_upload_by_tier:
  assumes "d_report_text req \<noteq> []"
    and "lazy_load_ml_model (load_ml sv) g = (available, g')"
  shows "(available \<and> ml_fake_model g' = Some m \<and> m (d_report_text req) = Inr (f, conf) \<longrightarrow>
           (case detect_fake_report sv g req of
              Ok r \<Rightarrow> d_is_fake r = f
                     \<and> can_upload r = (\<not> d_is_fake r \<and> 20 \<le> get_default (d_officer_credibility_score req) 50)
            | _ \<Rightarrow> False))
       \<and> (ml_fake_model g' = None \<and> \<not> gemini_api_key sv \<longrightarrow>
           (case detect_fake_report sv g req of
              Ok r \<Rightarrow> d_is_fake r = is_suspicious (quick_fake_check (d_report_text req)
                                        (get_default (d_officer_credibility_score req) 50))
                     \<and> can_upload r = (\<not> d_is_fake r \<and> 20 \<le> get_default (d_officer_credibility_score req) 50)
            | _ \<Rightarrow> False))
       \<and> (ml_fake_model g' = None \<and> gemini_api_key sv
            \<and> gemini sv (d_report_text req) (get_default (d_officer_credibility_score req) 50) = Parsed reply \<longrightarrow>
           (case detect_fake_report sv g req of
              Ok r \<Rightarrow> d_is_fake r = get_default (l_is_fake reply) False
                     \<and> can_upload r = get_default (l_can_upload reply) True
            | _ \<Rightarrow> False))"
  using assms
  by (auto simp add: detect_fake_report_def detect_tier1_def detect_tier2_def
        predict_fake_with_ml_model_def is_loaded_def Let_def)

lemma bike_theft_not_suspicious: "\<not> is_suspicious (quick_fake_check ''bike theft'' 50)"
  by code_simp

theorem can_upload_by_tier_witness:
  "(case detect_fake_report
      \<lparr>load_ml = LoadOk (\<lambda>t. Inr (True, 9/10)), gemini_api_key = False, gemini = (\<lambda>t c. GeminiRaised)\<rparr>
      not_loaded \<lparr>d_report_text = ''bike theft'', d_officer_credibility_score = Some 50\<rparr>
    of Ok r \<Rightarrow> d_is_fake r \<and> \<not> can_upload r | _ \<Rightarrow> False)
   \<and> (case detect_fake_report
      \<lparr>load_ml = LoadFailed None, gemini_api_key = False, gemini = (\<lambda>t c. GeminiRaised)\<rparr>
      not_loaded \<lparr>d_report_text = ''bike theft'', d_officer_credibility_score = Some 50\<rparr>
    of Ok r \<Rightarrow> \<not> d_is_fake r \<and> can_upload r | _ \<Rightarrow> False)"
  using can_upload_by_tier [of
          "\<lparr>d_report_text = ''bike theft'', d_officer_credibility_score = Some 50\<rparr>"
          "\<lparr>load_ml = LoadOk (\<lambda>t. Inr (True, 9/10)), gemini_api_key = False, gemini = (\<lambda>t c. GeminiRaised)\<rparr>"
          not_loaded True
          "\<lparr>ml_fake_model = Some (\<lambda>t. Inr (True, 9/10)), ml_loading_attempted = True\<rparr>"
          "\<lambda>t. Inr (True, 9/10)" True "9/10" llm_says_fake]
        can_upload_by_tier [of
          "\<lparr>d_report_text = ''bike theft'', d_officer_credibility_score = Some 50\<rparr>"
          "\<lparr>load_ml = LoadFailed None, gemini_api_key = False, gemini = (\<lambda>t c. GeminiRaised)\<rparr>"
          not_loaded False
          "\<lparr>ml_fake_model = None, ml_loading_attempted = True\<rparr>"
          "\<lambda>t. Inr (True, 9/10)" True "9/10" llm_says_fake]
        bike_theft_not_suspicious
  by (simp add: lazy_load_ml_model_def not_loaded_def get_default_def split: response.splits)

text \<open>
  C3 as stated fails at the language-model tier: the reply says fake and has no
  \<^verbatim>\<open>can_upload\<close> field, and the response has \<^verbatim>\<open>is_fake\<close> and \<^verbatim>\<open>can_upload\<close> both true.
\<close>

theorem fake_but_can_upload_counterexample:
  "(case detect_fake_report
     \<lparr>load_ml = LoadFailed None, gemini_api_key = True, gemini = (\<lambda>t c. Parsed llm_says_fake)\<rparr>
     not_loaded
     \<lparr>d_report_text = ''bike theft'', d_officer_credibility_score = Some 50\<rparr>
    of Ok r \<Rightarrow> d_is_fake r \<and> can_upload r | _ \<Rightarrow> False)"
  by (simp add: detect_fake_report_def detect_tier1_def detect_tier2_def
        is_loaded_def Let_def lazy_load_ml_model_def not_loaded_def llm_says_fake_def get_default_def)

section \<open>Properties of the keyword classification\<close>

lemma str_match_Cons: "str_match (a # w) k p s = (\<exists>ds. s = a # ds \<and> str_match w k (Some a) ds)"
  by (cases s) auto

lemma word_char_simps: "word_char CHR ''d''" "\<not> word_char CHR '' ''" "word_char CHR ''c''" "word_char CHR ''g''"
  by (simp_all add: word_char_def is_alpha_def lower_letters_def upper_letters_def digits_def)

lemma at_child_missing: "at_wb ''child missing'' p s \<Longrightarrow> at_wb ''child'' p s"
  by (auto simp add: at_wb_def str_match_Cons boundary_def word_char_simps)

lemma occurs_child_missing: "occurs_wb ''child missing'' p s \<Longrightarrow> occurs_wb ''child'' p s"
  by (induction s arbitrary: p) (auto dest: at_child_missing)

lemma at_missing_child: "at_wb ''missing child'' p s \<Longrightarrow> occurs_wb ''child'' p s"
  by (auto simp add: at_wb_def str_match_Cons boundary_def word_char_simps)

lemma occurs_missing_child: "occurs_wb ''missing child'' p s \<Longrightarrow> occurs_wb ''child'' p s"
  by (induction s arbitrary: p) (auto dest: at_missing_child)

text \<open>A missing-child phrase contains a person noun between word boundaries.\<close>

lemma missing_child_has_person:
  "match_any missing_child_words s \<Longrightarrow> match_any person_keywords s"
  by (auto simp add: match_any_def missing_child_words_def person_keywords_def
        dest: occurs_child_missing occurs_missing_child)

lemma fallback_reasoning: "auto_crime_reasoning (fallback_heuristics t) = None"
  by (simp add: fallback_heuristics_def Let_def)

lemma model_or_fallback_reasoning:
  "auto_crime_reasoning (model_or_fallback cm t) \<noteq> Some KidnappingEscalated"
  by (simp add: model_or_fallback_def fallback_reasoning split: option.splits)

lemma child_taken_flags:
  "match_any kidnapping_words (lower ''my child was taken near the school'')"
  "match_any person_keywords (lower ''my child was taken near the school'')"
  by code_simp+

lemma knife_point_flags:
  "match_any kidnapping_words (lower ''abducted at knife point'')"
  "\<not> match_any person_keywords (lower ''abducted at knife point'')"
  "has_weapon ''abducted at knife point''"
  by code_simp+

text \<open>
  C1, as the source has it, for \<^verbatim>\<open>auto_extract_and_classify\<close>. A text with kidnapping
  vocabulary and a person noun, or with a missing-child phrase, is classified Murder with
  confidence 0.97 and the reasoning that names the escalation. A text with kidnapping
  vocabulary and no person noun never gets that reasoning: it is Armed Robbery when weapon
  vocabulary is present, Theft with 0.89 when theft vocabulary is present without a weapon,
  and otherwise whatever the crime-type model or the fallback heuristics return.
\<close>

theorem kidnapping_person_gate:
  "(((match_any kidnapping_words (lower t) \<and> match_any person_keywords (lower t))
      \<or> match_any missing_child_words (lower t)) \<longrightarrow>
     auto_extract_and_classify cm t =
       \<lparr>auto_crime_type = Some ''Murder'', auto_crime_confidence = 97/100,
        auto_crime_reasoning = Some KidnappingEscalated\<rparr>)
   \<and> (match_any kidnapping_words (lower t) \<and> \<not> match_any person_keywords (lower t) \<longrightarrow>
       auto_crime_reasoning (auto_extract_and_classify cm t) \<noteq> Some KidnappingEscalated
       \<and> (has_weapon t \<longrightarrow> auto_crime_type (auto_extract_and_classify cm t) = Some ''Armed Robbery'')
       \<and> (\<not> has_weapon t \<and> has_theft t \<longrightarrow>
            auto_extract_and_classify cm t =
              \<lparr>auto_crime_type = Some ''Theft'', auto_crime_confidence = 89/100,
               auto_crime_reasoning = Some TheftOverride\<rparr>)
       \<and> (\<not> has_weapon t \<and> \<not> has_theft t \<longrightarrow>
            auto_extract_and_classify cm t = model_or_fallback cm t))"
  using missing_child_has_person [of "lower t"] model_or_fallback_reasoning [of cm t]
  by (auto simp add: auto_extract_and_classify_def has_kidnapping_def has_person_def)

theorem kidnapping_person_gate_witness:
  "auto_extract_and_classify (\<lambda>t. None) ''my child was taken near the school'' =
     \<lparr>auto_crime_type = Some ''Murder'', auto_crime_confidence = 97/100,
      auto_crime_reasoning = Some KidnappingEscalated\<rparr>
   \<and> auto_crime_reasoning (auto_extract_and_classify (\<lambda>t. None) ''abducted at knife point'')
       \<noteq> Some KidnappingEscalated"
  using kidnapping_person_gate [of "''my child was taken near the school''" "\<lambda>t. None"]
        kidnapping_person_gate [of "''abducted at knife point''" "\<lambda>t. None"]
        child_taken_flags knife_point_flags
  by simp

text \<open>
  C1 as stated fails: kidnapping vocabulary without a person noun gives Armed Robbery when a
  weapon word is present, and Murder (with no crime-type model) when the fallback
  heuristics see the word killed; neither is theft or unknown.
\<close>

theorem kidnapping_no_person_counterexample:
  "match_any kidnapping_words (lower ''abducted at knife point'')
   \<and> \<not> match_any person_keywords (lower ''abducted at knife point'')
   \<and> auto_crime_type (auto_extract_and_classify (\<lambda>t. None) ''abducted at knife point'') = Some ''Armed Robbery''
   \<and> match_any kidnapping_words (lower ''kidnapped and killed'')
   \<and> \<not> match_any person_keywords (lower ''kidnapped and killed'')
   \<and> auto_crime_type (auto_extract_and_classify (\<lambda>t. None) ''kidnapped and killed'') = Some ''Murder''"
  by code_simp

text \<open>The overrides of \<^verbatim>\<open>predict_crime_type\<close> have no person test: a snatched phone is
  classified Murder there, whatever the model said.\<close>

lemma predict_crime_type_snatched_phone:
  "crime_type (predict_crime_type_overrides ''snatched my phone'' ''Theft'' (8/10)) = ''Murder''
   \<and> auto_crime_type (auto_extract_and_classify (\<lambda>t. None) ''snatched my phone'') = Some ''Theft''"
  by code_simp


section \<open>Properties of the credibility ledger\<close>





end
